theory Spec2Isabelle
  imports Complex_Main
begin

section \<open>Python text operations\<close>

text \<open>
  The cleaning script works on a pandas DataFrame. A Python \<open>str\<close> is modelled as a
  \<open>string\<close> of ASCII characters: the case mappings and the white-space test below are
  Python's on the code points 0 to 127, and a character above 127 is left alone by all of
  them (text outside ASCII is outside this model).

  \<open>str.strip()\<close> removes leading and trailing white space (tab, line feed, vertical tab,
  form feed, carriage return, the four separators 0x1C to 0x1F and the blank);
  \<open>str.lower()\<close> maps \<open>A\<close> to \<open>Z\<close> to \<open>a\<close> to \<open>z\<close>;
  \<open>str.replace(old, new)\<close> is used with one-character arguments only;
  \<open>str.title()\<close> walks the text once, upper-casing a character whose predecessor is
  not a cased letter and lower-casing one whose predecessor is.
\<close>

definition is_space :: "char \<Rightarrow> bool" where
  "is_space c = (let n = (of_char c :: nat) in (9 \<le> n \<and> n \<le> 13) \<or> (28 \<le> n \<and> n \<le> 32))"

definition is_upper :: "char \<Rightarrow> bool" where
  "is_upper c = (let n = (of_char c :: nat) in 65 \<le> n \<and> n \<le> 90)"

definition is_lower :: "char \<Rightarrow> bool" where
  "is_lower c = (let n = (of_char c :: nat) in 97 \<le> n \<and> n \<le> 122)"

definition to_lower :: "char \<Rightarrow> char" where
  "to_lower c = (if is_upper c then char_of (of_char c + 32 :: nat) else c)"

definition to_upper :: "char \<Rightarrow> char" where
  "to_upper c = (if is_lower c then char_of (of_char c - 32 :: nat) else c)"

definition strip :: "string \<Rightarrow> string" where
  "strip s = rev (dropWhile is_space (rev (dropWhile is_space s)))"

definition lower :: "string \<Rightarrow> string" where
  "lower s = map to_lower s"

definition replace :: "char \<Rightarrow> char \<Rightarrow> string \<Rightarrow> string" where
  "replace old new s = map (\<lambda>c. if c = old then new else c) s"

fun title_from :: "bool \<Rightarrow> string \<Rightarrow> string" where
  "title_from prev [] = []"
| "title_from prev (c # cs) = (if prev then to_lower c else to_upper c) # title_from (is_upper c \<or> is_lower c) cs"

definition title :: "string \<Rightarrow> string" where
  "title s = title_from False s"

text \<open>
  Line 50 of \<open>clean_data\<close>: \<open>c.strip().lower().replace(" ", "_")\<close>.
\<close>

definition normalize_name :: "string \<Rightarrow> string" where
  "normalize_name c = replace (CHR '' '') (CHR ''_'') (lower (strip c))"

text \<open>A text is trimmed when it neither starts nor ends with white space.\<close>

definition trimmed :: "string \<Rightarrow> bool" where
  "trimmed s = (s = [] \<or> (\<not> is_space (hd s) \<and> \<not> is_space (last s)))"

section \<open>pandas values\<close>

text \<open>
  A cell of a DataFrame is a missing value, a text, a number or a timestamp.
  \<^item> pandas has several markers for a missing value (\<open>None\<close>, \<open>NaN\<close>, \<open>NaT\<close>, \<open>pd.NA\<close>).
    \<open>isna\<close> is true of all of them, but they are different values: \<open>str\<close> prints them
    differently and \<open>duplicated\<close> does not always take them as equal. A missing cell
    therefore carries its marker.
  \<^item> \<open>Num\<close> holds a finite integer or float by its value; comparing two floats is exact,
    so the range checks on reals are the range checks of the script. Infinities are not
    modelled.
  \<^item> \<open>Date\<close> holds a timestamp by its calendar date.

  A Series is the list of its cells and a DataFrame the list of its columns in order, each
  with its label. Column labels are texts. All columns of a DataFrame have the same length
  (\<open>wf_table\<close>).
\<close>

datatype date = YMD nat nat nat

datatype marker = PyNone | NaN | NaT | PdNA

datatype cell = Missing marker | Str string | Num real | Date date

type_synonym series = "cell list"

type_synonym table = "(string \<times> series) list"

text \<open>
  The exceptions of the model. \<open>TypeError\<close> is what Python raises when a text or a
  timestamp is compared with a number. When a label names more than one column,
  \<open>df[label]\<close> is a DataFrame and not a Series, and the Series operation the script applies
  next fails (with a \<open>ValueError\<close>, an \<open>AttributeError\<close> or a \<open>TypeError\<close>, according to
  the operation); the model reports \<open>DuplicateLabel\<close> for all of these.
\<close>

datatype error = TypeError | DuplicateLabel

definition bind_err :: "error + 'a \<Rightarrow> ('a \<Rightarrow> error + 'b) \<Rightarrow> error + 'b" where
  "bind_err r f = (case r of Inl e \<Rightarrow> Inl e | Inr x \<Rightarrow> f x)"

text \<open>
  The script does not pin a version of pandas, and some of what it calls depends on the
  version, on the dtype of a column or on the text that is parsed. All of that is a
  parameter \<open>L\<close> of the model, so a theorem stated for an arbitrary \<open>L\<close> holds for every
  pandas, and a theorem that needs a particular behaviour names it as a hypothesis on \<open>L\<close>.
  \<^item> \<open>text_of L c\<close>: what \<open>astype(str)\<close> makes of a cell \<open>c\<close> that is not a text, either a
    text (\<open>Inl\<close>) or a missing value (\<open>Inr\<close>, with its marker). On a missing cell, pandas
    before 3.0 gives the text of the marker (\<open>nan\<close>, \<open>None\<close>, \<open><NA>\<close>, \<open>NaT\<close>) and pandas
    from 3.0 on keeps the cell missing.
  \<^item> \<open>na_for L xs\<close>: the marker that the column \<open>xs\<close> holds where \<open>pd.NA\<close> is assigned into
    it (\<open>NaN\<close> in a column of floats, \<open>pd.NA\<close> itself in a column of dtype \<open>object\<close>).
  \<^item> \<open>date_of L first c\<close>: the date \<open>to_datetime(..., errors="coerce")\<close> reads from a text
    or a number \<open>c\<close>, if any, in a column whose first value that is not missing is
    \<open>first\<close> (from 2.0 on, pandas infers one format from that value and applies it to the
    whole column).
  \<^item> \<open>num_of L c\<close>: the number \<open>to_numeric(..., errors="coerce")\<close> reads from a text or a
    timestamp \<open>c\<close>, if any.
  \<^item> \<open>same_row L r r'\<close>: whether \<open>duplicated\<close> takes as equal two rows \<open>r\<close> and \<open>r'\<close> that
    are not identical. pandas takes identical rows as equal; whether it also takes two rows
    as equal that differ only in the markers of their missing cells depends on the frame.
\<close>

record pandas =
  text_of :: "cell \<Rightarrow> string + marker"
  na_for :: "series \<Rightarrow> marker"
  date_of :: "cell option \<Rightarrow> cell \<Rightarrow> date option"
  num_of :: "cell \<Rightarrow> real option"
  same_row :: "cell list \<Rightarrow> cell list \<Rightarrow> bool"

section \<open>Series operations\<close>

text \<open>
  \<^item> \<open>to_datetime\<close> with \<open>errors="coerce"\<close> keeps a timestamp and gives \<open>NaT\<close> for a
    missing cell and for what it cannot read.
  \<^item> \<open>astype(str)\<close> keeps a text and converts every other cell as \<open>text_of\<close> says.
  \<^item> \<open>.str.strip()\<close> and \<open>.str.title()\<close> apply the text operation to a text and leave a
    missing cell as it is.
  \<^item> \<open>series == value\<close> is false at a missing cell.
  \<^item> \<open>to_numeric\<close> with \<open>errors="coerce"\<close> keeps a number and gives \<open>NaN\<close> for a missing
    cell and for what it cannot read.
  \<^item> \<open>series < bound\<close> and \<open>series > bound\<close> are false at a missing cell and raise
    \<open>TypeError\<close> when the column holds a text or a timestamp.
  \<^item> \<open>a | b\<close> is the element-wise disjunction of two masks, and an assignment through a
    mask replaces the cells where the mask is true.
\<close>

definition isna :: "cell \<Rightarrow> bool" where
  "isna c = (case c of Missing m \<Rightarrow> True | _ \<Rightarrow> False)"

definition to_datetime :: "pandas \<Rightarrow> series \<Rightarrow> series" where
  "to_datetime L xs =
     map (\<lambda>c. case c of Missing m \<Rightarrow> Missing NaT | Date d \<Rightarrow> Date d
              | _ \<Rightarrow> (case date_of L (find (\<lambda>x. \<not> isna x) xs) c of
                        Some d \<Rightarrow> Date d | None \<Rightarrow> Missing NaT)) xs"

definition astype_cell :: "pandas \<Rightarrow> cell \<Rightarrow> cell" where
  "astype_cell L c =
     (case c of Str s \<Rightarrow> Str s
      | _ \<Rightarrow> (case text_of L c of Inl s \<Rightarrow> Str s | Inr m \<Rightarrow> Missing m))"

definition astype_str :: "pandas \<Rightarrow> series \<Rightarrow> series" where
  "astype_str L xs = map (astype_cell L) xs"

definition str_strip :: "series \<Rightarrow> series" where
  "str_strip xs =
     map (\<lambda>c. case c of Str s \<Rightarrow> Str (strip s) | Missing m \<Rightarrow> Missing m | _ \<Rightarrow> Missing NaN) xs"

definition str_title :: "series \<Rightarrow> series" where
  "str_title xs =
     map (\<lambda>c. case c of Str s \<Rightarrow> Str (title s) | Missing m \<Rightarrow> Missing m | _ \<Rightarrow> Missing NaN) xs"

definition eq_scalar :: "series \<Rightarrow> cell \<Rightarrow> bool list" where
  "eq_scalar xs v = map (\<lambda>c. \<not> isna c \<and> c = v) xs"

definition to_numeric :: "pandas \<Rightarrow> series \<Rightarrow> series" where
  "to_numeric L xs =
     map (\<lambda>c. case c of Missing m \<Rightarrow> Missing NaN | Num x \<Rightarrow> Num x
              | _ \<Rightarrow> (case num_of L c of Some x \<Rightarrow> Num x | None \<Rightarrow> Missing NaN)) xs"

definition comparable :: "cell \<Rightarrow> bool" where
  "comparable c = (case c of Missing m \<Rightarrow> True | Num x \<Rightarrow> True | _ \<Rightarrow> False)"

definition cmp_scalar :: "(real \<Rightarrow> bool) \<Rightarrow> series \<Rightarrow> error + bool list" where
  "cmp_scalar p xs =
     (if list_all comparable xs
      then Inr (map (\<lambda>c. case c of Num x \<Rightarrow> p x | _ \<Rightarrow> False) xs)
      else Inl TypeError)"

definition lt_scalar :: "series \<Rightarrow> real \<Rightarrow> error + bool list" where
  "lt_scalar xs b = cmp_scalar (\<lambda>x. x < b) xs"

definition gt_scalar :: "series \<Rightarrow> real \<Rightarrow> error + bool list" where
  "gt_scalar xs b = cmp_scalar (\<lambda>x. x > b) xs"

definition mask_or :: "bool list \<Rightarrow> bool list \<Rightarrow> bool list" where
  "mask_or a b = map2 (\<or>) a b"

definition mask_set :: "bool list \<Rightarrow> cell \<Rightarrow> series \<Rightarrow> series" where
  "mask_set m v xs = map2 (\<lambda>b c. if b then v else c) m xs"

section \<open>DataFrame operations\<close>

text \<open>
  \<open>df.columns\<close>, the assignment to \<open>df.columns\<close>, \<open>df[label]\<close>, \<open>df[label] = series\<close> and
  \<open>df.loc[mask, label] = pd.NA\<close>; the last stores in the column the marker that \<open>na_for\<close>
  gives for it.
\<close>

definition columns :: "table \<Rightarrow> string list" where
  "columns df = map fst df"

definition set_columns :: "string list \<Rightarrow> table \<Rightarrow> table" where
  "set_columns names df = map2 (\<lambda>n (_, xs). (n, xs)) names df"

definition getitem :: "table \<Rightarrow> string \<Rightarrow> error + series" where
  "getitem df n =
     (case filter (\<lambda>(m, xs). m = n) df of [(m, xs)] \<Rightarrow> Inr xs | _ \<Rightarrow> Inl DuplicateLabel)"

definition setitem :: "table \<Rightarrow> string \<Rightarrow> series \<Rightarrow> table" where
  "setitem df n new =
     (if n \<in> set (columns df)
      then map (\<lambda>(m, xs). if m = n then (m, new) else (m, xs)) df
      else df @ [(n, new)])"

definition loc_setitem_na :: "pandas \<Rightarrow> table \<Rightarrow> bool list \<Rightarrow> string \<Rightarrow> table" where
  "loc_setitem_na L df m n =
     map (\<lambda>(k, xs). if k = n then (k, mask_set m (Missing (na_for L xs)) xs) else (k, xs)) df"

text \<open>
  The rows of a DataFrame, and \<open>drop_duplicates()\<close>, which pandas computes as
  \<open>df[~df.duplicated()]\<close>: \<open>duplicated\<close> marks a row that it takes as equal to an earlier
  row, and \<open>equal_rows\<close> is the equality it uses: identical rows are equal, and so are the
  rows that \<open>same_row\<close> says.
\<close>

fun rows_of :: "nat \<Rightarrow> series list \<Rightarrow> cell list list" where
  "rows_of n [] = replicate n []"
| "rows_of n (xs # cols) = map2 (#) xs (rows_of n cols)"

definition nrows :: "table \<Rightarrow> nat" where
  "nrows df = (case df of [] \<Rightarrow> 0 | (n, xs) # rest \<Rightarrow> length xs)"

definition rows :: "table \<Rightarrow> cell list list" where
  "rows df = rows_of (nrows df) (map snd df)"


fun duplicated_from :: "('a \<Rightarrow> 'a \<Rightarrow> bool) \<Rightarrow> 'a list \<Rightarrow> 'a list \<Rightarrow> bool list" where
  "duplicated_from same seen [] = []"
| "duplicated_from same seen (r # rs) =
     list_ex (\<lambda>s. same s r) seen # duplicated_from same (r # seen) rs"

definition equal_rows :: "pandas \<Rightarrow> cell list \<Rightarrow> cell list \<Rightarrow> bool" where
  "equal_rows L r r' = (r = r' \<or> same_row L r r')"

definition duplicated :: "pandas \<Rightarrow> table \<Rightarrow> bool list" where
  "duplicated L df = duplicated_from (equal_rows L) [] (rows df)"

definition select_rows :: "bool list \<Rightarrow> 'a list \<Rightarrow> 'a list" where
  "select_rows keep xs = map snd (filter fst (zip keep xs))"

definition drop_duplicates :: "pandas \<Rightarrow> table \<Rightarrow> table" where
  "drop_duplicates L df =
     (let keep = map Not (duplicated L df) in map (\<lambda>(n, xs). (n, select_rows keep xs)) df)"

section \<open>The cleaning function\<close>

text \<open>
  \<open>clean_data\<close>, lines 46 to 75. Each step is guarded by \<open>if label in df.columns\<close>.
  \<open>parse_dates\<close> is lines 53 and 54, \<open>standardize_city\<close> lines 57 to 60, \<open>coerce_injuries\<close>
  lines 63 and 64, \<open>check_range\<close> lines 67 to 70 (once for each coordinate).
  \<open>normalized\<close> is the function up to line 70 and \<open>clean_data\<close> adds the removal of
  duplicates of line 73. The copy of line 49 is the identity on values; the version of the
  function on a store of objects, further down, makes it explicit.
\<close>

definition parse_dates :: "pandas \<Rightarrow> table \<Rightarrow> error + table" where
  "parse_dates L df =
     (if ''crash_date'' \<in> set (columns df)
      then bind_err (getitem df ''crash_date'') (\<lambda>c.
             Inr (setitem df ''crash_date'' (to_datetime L c)))
      else Inr df)"

definition standardize_city :: "pandas \<Rightarrow> table \<Rightarrow> error + table" where
  "standardize_city L df =
     (if ''city'' \<in> set (columns df)
      then bind_err (getitem df ''city'') (\<lambda>c.
             let df1 = setitem df ''city'' (str_strip (astype_str L c)) in
             bind_err (getitem df1 ''city'') (\<lambda>c1.
             let df2 = loc_setitem_na L df1 (eq_scalar c1 (Str '''')) ''city'' in
             bind_err (getitem df2 ''city'') (\<lambda>c2.
             Inr (setitem df2 ''city'' (str_title c2)))))
      else Inr df)"

definition coerce_injuries :: "pandas \<Rightarrow> table \<Rightarrow> error + table" where
  "coerce_injuries L df =
     (if ''injuries'' \<in> set (columns df)
      then bind_err (getitem df ''injuries'') (\<lambda>c.
             Inr (setitem df ''injuries'' (to_numeric L c)))
      else Inr df)"

definition check_range :: "pandas \<Rightarrow> string \<Rightarrow> real \<Rightarrow> real \<Rightarrow> table \<Rightarrow> error + table" where
  "check_range L n lo hi df =
     (if n \<in> set (columns df)
      then bind_err (getitem df n) (\<lambda>c.
           bind_err (lt_scalar c lo) (\<lambda>below.
           bind_err (getitem df n) (\<lambda>c'.
           bind_err (gt_scalar c' hi) (\<lambda>above.
             Inr (loc_setitem_na L df (mask_or below above) n)))))
      else Inr df)"

definition normalized :: "pandas \<Rightarrow> table \<Rightarrow> error + table" where
  "normalized L df0 =
     (let df = set_columns (map normalize_name (columns df0)) df0 in
      bind_err (parse_dates L df) (\<lambda>df.
      bind_err (standardize_city L df) (\<lambda>df.
      bind_err (coerce_injuries L df) (\<lambda>df.
      bind_err (check_range L ''latitude'' (- 90) 90 df) (\<lambda>df.
      check_range L ''longitude'' (- 180) 180 df)))))"

definition clean_data :: "pandas \<Rightarrow> table \<Rightarrow> error + table" where
  "clean_data L df = bind_err (normalized L df) (\<lambda>df. Inr (drop_duplicates L df))"

text \<open>
  What the steps do to one column and to one cell, used to state the results.
  \<open>map_col n f\<close> applies \<open>f\<close> to the columns labelled \<open>n\<close>. \<open>city_cell L v\<close> is the effect of
  lines 58 to 60 on a single cell, \<open>v\<close> being the missing value that line 59 stores, and
  \<open>range_cell v lo hi\<close> the effect of lines 68 and 70 on a single cell, \<open>v\<close> being the
  missing value that they store. \<open>city_rule\<close> and \<open>range_rule\<close> are their effect on a
  column, and \<open>col_rule L n\<close> is the effect of lines 53 to 70 on a column labelled \<open>n\<close>.
\<close>

definition map_col :: "string \<Rightarrow> (series \<Rightarrow> series) \<Rightarrow> table \<Rightarrow> table" where
  "map_col n f df = map (\<lambda>(m, xs). (m, if m = n then f xs else xs)) df"

definition city_cell :: "pandas \<Rightarrow> cell \<Rightarrow> cell \<Rightarrow> cell" where
  "city_cell L v c =
     (case astype_cell L c of
        Str s \<Rightarrow> if strip s = [] then v else Str (title (strip s))
      | Missing m \<Rightarrow> Missing m
      | _ \<Rightarrow> Missing NaN)"

definition city_rule :: "pandas \<Rightarrow> series \<Rightarrow> series" where
  "city_rule L xs = map (city_cell L (Missing (na_for L (str_strip (astype_str L xs))))) xs"

definition range_cell :: "cell \<Rightarrow> real \<Rightarrow> real \<Rightarrow> cell \<Rightarrow> cell" where
  "range_cell v lo hi c = (case c of Num x \<Rightarrow> if x < lo \<or> hi < x then v else Num x | _ \<Rightarrow> c)"

definition range_rule :: "pandas \<Rightarrow> real \<Rightarrow> real \<Rightarrow> series \<Rightarrow> series" where
  "range_rule L lo hi xs = map (range_cell (Missing (na_for L xs)) lo hi) xs"

definition col_rule :: "pandas \<Rightarrow> string \<Rightarrow> series \<Rightarrow> series" where
  "col_rule L n xs =
     (if n = ''crash_date'' then to_datetime L xs
      else if n = ''city'' then city_rule L xs
      else if n = ''injuries'' then to_numeric L xs
      else if n = ''latitude'' then range_rule L (- 90) 90 xs
      else if n = ''longitude'' then range_rule L (- 180) 180 xs
      else xs)"




section \<open>The loader\<close>

text \<open>
  \<open>load_data\<close>, lines 27 to 43. \<open>raw\<close> is the DataFrame read from \<open>raw_data.csv\<close> when
  that file exists and \<open>None\<close> when it does not; \<open>fallback\<close> is the built-in sample of
  lines 34 to 42. The \<open>None\<close> among the dates is a missing value of a column of texts, and
  the \<open>None\<close> in each coordinate column is stored as \<open>NaN\<close>, the columns being of floats.
\<close>

definition fallback :: table where
  "fallback =
     [(''Crash Date'', [Str ''2026-05-01'', Str ''2026/05/02'', Missing PyNone, Str ''2026-05-04'']),
      (''City'', [Str ''Cincinnati'', Str ''CINCINNATI '', Str ''Covington'', Str '''']),
      (''Injuries'', [Str ''2'', Str ''0'', Str ''unknown'', Str ''1'']),
      (''Latitude'', [Num 39.1031, Num 39.1032, Missing NaN, Num 39.0500]),
      (''Longitude'', [Num (- 84.5120), Num (- 84.5121), Num (- 84.5200), Missing NaN])]"

definition load_data :: "table option \<Rightarrow> table" where
  "load_data raw = (case raw of Some df \<Rightarrow> df | None \<Rightarrow> fallback)"

text \<open>
  The table that \<open>clean_data\<close> makes of the built-in sample with the library instance of
  the examples (\<open>fallback_sample_cleaned\<close> below), named for reference.
\<close>

definition cleaned_fallback :: table where
  "cleaned_fallback =
     [(''crash_date'', [Date (YMD 2026 5 1), Missing NaT, Missing NaT, Date (YMD 2026 5 4)]),
      (''city'', [Str ''Cincinnati'', Str ''Cincinnati'', Str ''Covington'', Missing NaN]),
      (''injuries'', [Num 2, Num 0, Missing NaN, Num 1]),
      (''latitude'', [Num 39.1031, Num 39.1032, Missing NaN, Num 39.0500]),
      (''longitude'', [Num (- 84.5120), Num (- 84.5121), Num (- 84.5200), Missing NaN])]"

section \<open>The data dictionary\<close>

text \<open>
  \<open>write_data_dictionary\<close>, lines 78 to 92. The lines of the document are collected in
  a list and written to \<open>DOC_FILE\<close>; the file system is a map from paths to contents.
  \<open>dtype s\<close> stands for \<open>str(s.dtype)\<close>, the name pandas gives the storage type of a column
  (such as \<open>object\<close>, \<open>float64\<close> or \<open>datetime64[ns]\<close>); it is a parameter. \<open>missing\<close> is
  \<open>int(s.isna().sum())\<close> and \<open>digits_of\<close> the decimal text of a natural number, as the
  f-string of line 89 prints it. \<open>dash\<close> is the separator of line 89 as the bytes stand in
  the source file, and \<open>em_dash\<close> the UTF-8 bytes of the character U+2014.
\<close>

fun digits_of :: "nat \<Rightarrow> string" where
  "digits_of n =
     (if n < 10 then [char_of (48 + n)] else digits_of (n div 10) @ [char_of (48 + n mod 10)])"

declare digits_of.simps [simp del]

definition DOC_FILE :: string where
  "DOC_FILE = ''data_dictionary.md''"

definition dash :: string where
  "dash = [CHR 0xC3, CHR 0xA2, CHR 0xE2, CHR 0x82, CHR 0xAC, CHR 0xE2, CHR 0x80, CHR 0x9D]"

definition em_dash :: string where
  "em_dash = [CHR 0xE2, CHR 0x80, CHR 0x94]"

definition preamble :: "string list" where
  "preamble =
     [''# Data Dictionary / Methodology'' @ [CHR 0x0A],
      ''**Source:** Public sample or local `raw_data.csv` (if provided)'' @ [CHR 0x0A],
      ''**Cleaning steps:** standardized column names, parsed dates, trimmed text, coerced numeric fields, basic lat/lon validation, removed duplicates.'' @ [CHR 0x0A],
      [CHR 0x0A] @ ''## Columns'' @ [CHR 0x0A]]"

definition missing :: "series \<Rightarrow> nat" where
  "missing s = length (filter isna s)"

definition entry :: "string \<Rightarrow> string \<Rightarrow> nat \<Rightarrow> string" where
  "entry col dtype n =
     ''- **'' @ col @ ''** ('' @ dtype @ '') '' @ dash @ '' missing: '' @ digits_of n @ [CHR 0x0A]"

fun column_entries :: "(series \<Rightarrow> string) \<Rightarrow> table \<Rightarrow> string list \<Rightarrow> error + string list" where
  "column_entries dtype df [] = Inr []"
| "column_entries dtype df (col # cols) =
     bind_err (getitem df col) (\<lambda>s.
     bind_err (column_entries dtype df cols) (\<lambda>rest.
       Inr (entry col (dtype s) (missing s) # rest)))"

definition write_data_dictionary ::
    "(series \<Rightarrow> string) \<Rightarrow> table \<Rightarrow> (string \<rightharpoonup> string) \<Rightarrow> error + (string \<rightharpoonup> string)" where
  "write_data_dictionary dtype df fs =
     bind_err (column_entries dtype df (columns df)) (\<lambda>es.
       Inr (fs(DOC_FILE \<mapsto> concat (preamble @ es))))"

section \<open>The cleaning function on a store of objects\<close>

text \<open>
  Python passes a DataFrame by reference, and lines 50 to 70 assign into the object that
  \<open>df\<close> names. To state what happens to the caller's object, a store holds the DataFrames
  that exist, a reference is an index into it, and a new object is appended.
  \<open>copy\<close> is \<open>df.copy()\<close> (a deep copy), \<open>in_place\<close> runs a step on the object a
  reference names and stores the result there, and \<open>clean_data_heap\<close> is \<open>clean_data\<close>
  with the rebinding of \<open>df\<close> of lines 49 and 73 and the assignments in between.
\<close>

type_synonym heap = "table list"

definition copy :: "nat \<Rightarrow> heap \<Rightarrow> nat \<times> heap" where
  "copy r h = (length h, h @ [h ! r])"

definition in_place :: "nat \<Rightarrow> (table \<Rightarrow> error + table) \<Rightarrow> heap \<Rightarrow> error + heap" where
  "in_place r step h = bind_err (step (h ! r)) (\<lambda>t. Inr (h[r := t]))"

definition clean_data_heap :: "pandas \<Rightarrow> nat \<Rightarrow> heap \<Rightarrow> error + nat \<times> heap" where
  "clean_data_heap L df0 h0 =
     (let (df, h) = copy df0 h0;
          h = h[df := set_columns (map normalize_name (columns (h ! df))) (h ! df)]
      in bind_err (in_place df (parse_dates L) h) (\<lambda>h.
         bind_err (in_place df (standardize_city L) h) (\<lambda>h.
         bind_err (in_place df (coerce_injuries L) h) (\<lambda>h.
         bind_err (in_place df (check_range L ''latitude'' (- 90) 90) h) (\<lambda>h.
         bind_err (in_place df (check_range L ''longitude'' (- 180) 180) h) (\<lambda>h.
           Inr (length h, h @ [drop_duplicates L (h ! df)])))))))"

section \<open>Library instances for the examples\<close>

text \<open>
  The examples below run the functions on concrete tables, which needs concrete
  conversions. Two instances fix them as far as the examples go and no further.
  \<^item> Dates: the format is the one of the first value of the column that is not missing,
    for the two formats \<open>YYYY-MM-DD\<close> and \<open>YYYY/MM/DD\<close>; a text in another format than the
    inferred one is not read.
  \<^item> Numbers: a text of decimal digits is read as that integer, any other text is not
    read.
  \<^item> Rows: two rows of a frame of one column are equal when they are identical, and two
    rows of a wider frame when they are identical up to the markers of their missing cells.
  \<^item> No example applies \<open>astype(str)\<close> to a number or a timestamp; \<open>text_of\<close> gives the
    empty text there.
  \<^item> \<open>example_pandas\<close> follows pandas from 3.0 on: \<open>astype(str)\<close> makes \<open>NaN\<close> of every
    missing cell and an assignment of \<open>pd.NA\<close> stores \<open>NaN\<close>.
  \<^item> \<open>legacy_pandas\<close> follows pandas before 3.0: \<open>astype(str)\<close> makes of a missing cell
    the text of its marker, and an assignment of \<open>pd.NA\<close> stores \<open>pd.NA\<close> in a column that
    holds a text and \<open>NaN\<close> in any other column.
  \<^item> \<open>example_dtype\<close> names the storage type of a column by its cells: \<open>datetime64[ns]\<close>
    for timestamps, \<open>float64\<close> for numbers, \<open>object\<close> for anything else.
\<close>

definition is_digit :: "char \<Rightarrow> bool" where
  "is_digit c = (let n = (of_char c :: nat) in 48 \<le> n \<and> n \<le> 57)"

definition digit_val :: "char \<Rightarrow> nat" where
  "digit_val c = of_char c - 48"

definition number_of :: "string \<Rightarrow> nat" where
  "number_of s = foldl (\<lambda>a c. 10 * a + digit_val c) 0 s"

fun guess_datetime_format :: "string \<Rightarrow> char option" where
  "guess_datetime_format [y1, y2, y3, y4, s1, m1, m2, s2, d1, d2] =
     (if list_all is_digit [y1, y2, y3, y4, m1, m2, d1, d2] \<and> s1 = s2
         \<and> (s1 = CHR ''-'' \<or> s1 = CHR ''/'')
      then Some s1 else None)"
| "guess_datetime_format s = None"

fun strptime :: "char \<Rightarrow> string \<Rightarrow> date option" where
  "strptime sep [y1, y2, y3, y4, s1, m1, m2, s2, d1, d2] =
     (if list_all is_digit [y1, y2, y3, y4, m1, m2, d1, d2] \<and> s1 = sep \<and> s2 = sep
         \<and> 1 \<le> number_of [m1, m2] \<and> number_of [m1, m2] \<le> 12
         \<and> 1 \<le> number_of [d1, d2] \<and> number_of [d1, d2] \<le> 31
      then Some (YMD (number_of [y1, y2, y3, y4]) (number_of [m1, m2]) (number_of [d1, d2]))
      else None)"
| "strptime sep s = None"

definition example_date_of :: "cell option \<Rightarrow> cell \<Rightarrow> date option" where
  "example_date_of first c =
     (case first of
        Some (Str f) \<Rightarrow>
          (case guess_datetime_format f of
             Some sep \<Rightarrow> (case c of Str s \<Rightarrow> strptime sep s | _ \<Rightarrow> None)
           | None \<Rightarrow> None)
      | _ \<Rightarrow> None)"

definition example_num_of :: "cell \<Rightarrow> real option" where
  "example_num_of c =
     (case c of
        Str s \<Rightarrow> if s \<noteq> [] \<and> list_all is_digit s then Some (real (number_of s)) else None
      | _ \<Rightarrow> None)"

definition blind :: "cell \<Rightarrow> cell" where
  "blind c = (case c of Missing m \<Rightarrow> Missing NaN | _ \<Rightarrow> c)"

definition example_same_row :: "cell list \<Rightarrow> cell list \<Rightarrow> bool" where
  "example_same_row r r' = (if length r = 1 then r = r' else map blind r = map blind r')"

definition example_pandas :: pandas where
  "example_pandas =
     \<lparr>text_of = (\<lambda>c. case c of Missing m \<Rightarrow> Inr NaN | _ \<Rightarrow> Inl []),
      na_for = (\<lambda>xs. NaN),
      date_of = example_date_of, num_of = example_num_of, same_row = example_same_row\<rparr>"

definition marker_text :: "marker \<Rightarrow> string" where
  "marker_text m = (case m of PyNone \<Rightarrow> ''None'' | NaN \<Rightarrow> ''nan'' | NaT \<Rightarrow> ''NaT'' | PdNA \<Rightarrow> ''<NA>'')"

definition holds_text :: "series \<Rightarrow> bool" where
  "holds_text xs = list_ex (\<lambda>c. case c of Str s \<Rightarrow> True | _ \<Rightarrow> False) xs"

definition legacy_pandas :: pandas where
  "legacy_pandas =
     \<lparr>text_of = (\<lambda>c. case c of Missing m \<Rightarrow> Inl (marker_text m) | _ \<Rightarrow> Inl []),
      na_for = (\<lambda>xs. if holds_text xs then PdNA else NaN),
      date_of = example_date_of, num_of = example_num_of, same_row = example_same_row\<rparr>"

definition example_dtype :: "series \<Rightarrow> string" where
  "example_dtype xs =
     (if list_all (\<lambda>c. case c of Date d \<Rightarrow> True | Missing m \<Rightarrow> True | _ \<Rightarrow> False) xs
         \<and> list_ex (\<lambda>c. case c of Date d \<Rightarrow> True | _ \<Rightarrow> False) xs
      then ''datetime64[ns]''
      else if list_all (\<lambda>c. case c of Num x \<Rightarrow> True | Missing m \<Rightarrow> True | _ \<Rightarrow> False) xs
      then ''float64''
      else ''object'')"

section \<open>Properties of the text operations\<close>

lemma is_space_to_lower: "is_space (to_lower c) = is_space c"
  by (auto simp: is_space_def to_lower_def is_upper_def Let_def)

lemma is_upper_to_lower: "\<not> is_upper (to_lower c)"
  by (auto simp: to_lower_def is_upper_def Let_def)





lemma to_lower_idem: "to_lower (to_lower c) = to_lower c"
  by (subst to_lower_def) (simp add: is_upper_to_lower)


lemma dropWhile_hd: "\<not> P (hd xs) \<Longrightarrow> dropWhile P xs = xs"
  by (cases xs) auto

lemma strip_trimmed: "trimmed s \<Longrightarrow> strip s = s"
  unfolding trimmed_def strip_def
  by (cases "s = []") (auto simp: dropWhile_hd hd_rev)

lemma last_dropWhile: "dropWhile P xs \<noteq> [] \<Longrightarrow> last (dropWhile P xs) = last xs"
  by (induction xs) (auto split: if_splits)

lemma trimmed_strip: "trimmed (strip s)"
proof (cases "strip s = []")
  case True
  then show ?thesis by (simp add: trimmed_def)
next
  case False
  define a where "a = dropWhile is_space s"
  define b where "b = dropWhile is_space (rev a)"
  have sb: "strip s = rev b" by (simp add: strip_def a_def b_def)
  have bne: "b \<noteq> []" using False sb by simp
  then have ane: "a \<noteq> []" by (auto simp: b_def)
  have hb: "\<not> is_space (hd b)" using bne unfolding b_def by (rule hd_dropWhile)
  have ha: "\<not> is_space (hd a)" using ane unfolding a_def by (rule hd_dropWhile)
  have "last b = last (rev a)" using bne unfolding b_def by (rule last_dropWhile)
  then have lb: "last b = hd a" using ane by (simp add: last_rev)
  have "hd (strip s) = last b" using bne by (simp add: sb hd_rev)
  moreover have "last (strip s) = hd b" using bne by (simp add: sb last_rev)
  ultimately show ?thesis using ha hb lb by (simp add: trimmed_def)
qed

lemma strip_idem: "strip (strip s) = strip s"
  by (rule strip_trimmed [OF trimmed_strip])

lemma trimmed_map:
  assumes t: "trimmed s" and f: "\<And>c. \<not> is_space c \<Longrightarrow> \<not> is_space (f c)"
  shows "trimmed (map f s)"
proof (cases "s = []")
  case True
  then show ?thesis by (simp add: trimmed_def)
next
  case False
  with t have h: "\<not> is_space (hd s)" and l: "\<not> is_space (last s)"
    by (simp_all add: trimmed_def)
  have "\<not> is_space (f (hd s))" using h by (rule f)
  moreover have "\<not> is_space (f (last s))" using l by (rule f)
  ultimately show ?thesis using False by (simp add: trimmed_def hd_map last_map)
qed

lemma normalize_name_idem: "normalize_name (normalize_name c) = normalize_name c"
proof -
  let ?r = "\<lambda>c. if c = CHR '' '' then CHR ''_'' else c"
  have sp: "\<not> is_space (CHR ''_'')" by (simp add: is_space_def)
  have t1: "trimmed (lower (strip c))"
    unfolding lower_def by (rule trimmed_map [OF trimmed_strip]) (simp add: is_space_to_lower)
  have t2: "trimmed (normalize_name c)"
    unfolding normalize_name_def replace_def by (rule trimmed_map [OF t1]) (simp add: sp)
  have s: "strip (normalize_name c) = normalize_name c" by (rule strip_trimmed [OF t2])
  have c1: "\<And>x. to_lower (?r (to_lower x)) = ?r (to_lower x)"
    by (simp add: to_lower_idem) (simp add: to_lower_def is_upper_def)
  have l: "lower (normalize_name c) = normalize_name c"
    unfolding normalize_name_def lower_def replace_def map_map comp_def
    by (simp only: c1)
  have c2: "\<And>x. ?r (?r x) = ?r x" by simp
  have r: "replace (CHR '' '') (CHR ''_'') (normalize_name c) = normalize_name c"
    unfolding normalize_name_def lower_def replace_def map_map comp_def
    by (simp only: c2)
  have "normalize_name (normalize_name c) =
      replace (CHR '' '') (CHR ''_'') (lower (strip (normalize_name c)))"
    by (simp only: normalize_name_def)
  also have "\<dots> = normalize_name c" by (simp only: s l r)
  finally show ?thesis .
qed






section \<open>The steps of the cleaning function, column by column\<close>

lemma bind_err_Inr: "bind_err r f = Inr y \<Longrightarrow> \<exists>x. r = Inr x \<and> f x = Inr y"
  by (cases r) (simp_all add: bind_err_def)

lemma getitem_filter: "getitem df n = Inr c \<Longrightarrow> filter (\<lambda>(m, xs). m = n) df = [(n, c)]"
proof -
  assume g: "getitem df n = Inr c"
  then obtain m where f: "filter (\<lambda>(m, xs). m = n) df = [(m, c)]"
    by (auto simp: getitem_def split: list.splits prod.splits)
  then have "(m, c) \<in> set (filter (\<lambda>(m, xs). m = n) df)" by simp
  then have "m = n" by simp
  with f show ?thesis by simp
qed

lemma getitem_unique: "getitem df n = Inr c \<Longrightarrow> (n, xs) \<in> set df \<Longrightarrow> xs = c"
proof -
  assume g: "getitem df n = Inr c" and m: "(n, xs) \<in> set df"
  from m have "(n, xs) \<in> set (filter (\<lambda>(m, xs). m = n) df)" by simp
  with getitem_filter [OF g] show ?thesis by simp
qed

lemma getitem_mem: "getitem df n = Inr c \<Longrightarrow> n \<in> set (columns df)"
proof -
  assume g: "getitem df n = Inr c"
  have "(n, c) \<in> set (filter (\<lambda>(m, xs). m = n) df)" by (simp add: getitem_filter [OF g])
  then have "(n, c) \<in> set df" by simp
  then show ?thesis unfolding columns_def by (metis fst_conv image_eqI set_map)
qed

lemma map_col_cong_get:
  "getitem df n = Inr c \<Longrightarrow> f c = g c \<Longrightarrow> map_col n f df = map_col n g df"
  unfolding map_col_def
  by (rule map_cong) (auto dest: getitem_unique)

lemma setitem_map_col: "getitem df n = Inr c \<Longrightarrow> setitem df n (f c) = map_col n f df"
proof -
  assume g: "getitem df n = Inr c"
  have "setitem df n (f c) = map (\<lambda>(m, xs). if m = n then (m, f c) else (m, xs)) df"
    by (simp add: setitem_def getitem_mem [OF g])
  also have "\<dots> = map_col n f df"
    unfolding map_col_def by (rule map_cong) (auto dest: getitem_unique [OF g])
  finally show ?thesis .
qed

lemma filter_map_col:
  "filter (\<lambda>(m, xs). m = k) (map_col n f df) = map_col n f (filter (\<lambda>(m, xs). m = k) df)"
  by (induction df) (auto simp: map_col_def)

lemma getitem_map_col: "getitem df n = Inr c \<Longrightarrow> getitem (map_col n f df) n = Inr (f c)"
  by (simp add: getitem_def [of "map_col n f df"] filter_map_col getitem_filter)
     (simp add: map_col_def)

lemma columns_map_col: "columns (map_col n f df) = columns df"
  by (induction df) (auto simp: map_col_def columns_def)

lemma map_col_absent: "n \<notin> set (columns df) \<Longrightarrow> map_col n f df = df"
  by (induction df) (auto simp: map_col_def columns_def)

lemma map_col_twice: "map_col n f (map_col n g df) = map_col n (\<lambda>xs. f (g xs)) df"
  by (induction df) (auto simp: map_col_def)

lemma loc_setitem_na_map_col:
  "loc_setitem_na L df m n = map_col n (\<lambda>xs. mask_set m (Missing (na_for L xs)) xs) df"
  unfolding loc_setitem_na_def map_col_def by (rule map_cong) auto

lemma parse_dates_Inr:
  assumes "parse_dates L df = Inr d"
  shows "d = map_col ''crash_date'' (to_datetime L) df"
proof (cases "''crash_date'' \<in> set (columns df)")
  case False
  with assms show ?thesis by (simp add: parse_dates_def map_col_absent)
next
  case True
  with assms obtain c where c: "getitem df ''crash_date'' = Inr c"
      and d: "d = setitem df ''crash_date'' (to_datetime L c)"
    by (auto simp: parse_dates_def dest!: bind_err_Inr)
  show ?thesis unfolding d by (rule setitem_map_col [OF c])
qed

lemma coerce_injuries_Inr:
  assumes "coerce_injuries L df = Inr d"
  shows "d = map_col ''injuries'' (to_numeric L) df"
proof (cases "''injuries'' \<in> set (columns df)")
  case False
  with assms show ?thesis by (simp add: coerce_injuries_def map_col_absent)
next
  case True
  with assms obtain c where c: "getitem df ''injuries'' = Inr c"
      and d: "d = setitem df ''injuries'' (to_numeric L c)"
    by (auto simp: coerce_injuries_def dest!: bind_err_Inr)
  show ?thesis unfolding d by (rule setitem_map_col [OF c])
qed

lemma city_steps:
  "str_title (mask_set (eq_scalar (str_strip (astype_str L c)) (Str [])) (Missing m0)
       (str_strip (astype_str L c)))
     = map (city_cell L (Missing m0)) c"
proof -
  have z: "\<And>f g h xs. map2 f (map g xs) (map h xs) = map (\<lambda>x. f (g x) (h x)) xs"
    by (simp add: zip_map_map zip_same_conv_map)
  show ?thesis
    unfolding str_title_def mask_set_def eq_scalar_def str_strip_def astype_str_def map_map z
    by (rule map_cong) (auto simp: city_cell_def isna_def split: cell.splits)
qed

lemma standardize_city_Inr:
  assumes "standardize_city L df = Inr d"
  shows "d = map_col ''city'' (city_rule L) df"
proof (cases "''city'' \<in> set (columns df)")
  case False
  with assms show ?thesis by (simp add: standardize_city_def map_col_absent)
next
  case True
  define c1 where "c1 c = str_strip (astype_str L c)" for c
  define c2 where "c2 c = mask_set (eq_scalar (c1 c) (Str [])) (Missing (na_for L (c1 c))) (c1 c)" for c
  define blank where "blank = (\<lambda>c xs. mask_set (eq_scalar (c1 c) (Str [])) (Missing (na_for L xs)) xs)"
  from True assms obtain c where c: "getitem df ''city'' = Inr c"
    by (auto simp: standardize_city_def dest!: bind_err_Inr)
  have df1: "setitem df ''city'' (str_strip (astype_str L c)) = map_col ''city'' c1 df"
    unfolding c1_def by (rule setitem_map_col [OF c])
  have g1: "getitem (map_col ''city'' c1 df) ''city'' = Inr (c1 c)"
    by (rule getitem_map_col [OF c])
  have l: "loc_setitem_na L (map_col ''city'' c1 df) (eq_scalar (c1 c) (Str [])) ''city''
      = map_col ''city'' (blank c) (map_col ''city'' c1 df)"
    by (simp add: loc_setitem_na_map_col blank_def)
  have g2: "getitem (map_col ''city'' (blank c) (map_col ''city'' c1 df)) ''city'' = Inr (c2 c)"
    using getitem_map_col [OF g1, of "blank c"] by (simp add: blank_def c2_def)
  from assms True have "d = setitem (map_col ''city'' (blank c) (map_col ''city'' c1 df))
        ''city'' (str_title (c2 c))"
    by (simp add: standardize_city_def c bind_err_def df1 g1 l g2 Let_def)
  also have "\<dots> = map_col ''city'' str_title (map_col ''city'' (blank c) (map_col ''city'' c1 df))"
    by (rule setitem_map_col [OF g2])
  also have "\<dots> = map_col ''city'' (\<lambda>xs. str_title (blank c (c1 xs))) df"
    by (simp add: map_col_twice)
  also have "\<dots> = map_col ''city'' (city_rule L) df"
    by (rule map_col_cong_get [OF c]) (simp add: blank_def c1_def city_steps city_rule_def)
  finally show ?thesis .
qed

lemma cmp_scalar_Inr:
  "cmp_scalar p xs = Inr m \<Longrightarrow>
     list_all comparable xs \<and> m = map (\<lambda>c. case c of Num x \<Rightarrow> p x | _ \<Rightarrow> False) xs"
  by (auto simp: cmp_scalar_def split: if_splits)

lemma range_steps:
  "mask_set (mask_or (map (\<lambda>c. case c of Num x \<Rightarrow> x < lo | _ \<Rightarrow> False) xs)
                     (map (\<lambda>c. case c of Num x \<Rightarrow> hi < x | _ \<Rightarrow> False) xs)) v xs
     = map (range_cell v lo hi) xs"
proof -
  have z: "\<And>f g h xs. map2 f (map g xs) (map h xs) = map (\<lambda>x. f (g x) (h x)) xs"
    by (simp add: zip_map_map zip_same_conv_map)
  have w: "\<And>f (g :: cell \<Rightarrow> bool) xs. map2 f (map g xs) xs = map (\<lambda>x. f (g x) x) xs"
    by (simp add: zip_map1 zip_same_conv_map)
  show ?thesis
    unfolding mask_set_def mask_or_def z w
    by (rule map_cong) (auto simp: range_cell_def split: cell.splits)
qed

lemma check_range_Inr:
  assumes "check_range L n lo hi df = Inr d"
  shows "d = map_col n (range_rule L lo hi) df"
    and "getitem df n = Inr c \<Longrightarrow> list_all comparable c"
proof -
  show "d = map_col n (range_rule L lo hi) df"
  proof (cases "n \<in> set (columns df)")
    case False
    with assms show ?thesis by (simp add: check_range_def map_col_absent)
  next
    case True
    with assms obtain c below above where c: "getitem df n = Inr c"
        and b: "lt_scalar c lo = Inr below" and a: "gt_scalar c hi = Inr above"
        and d: "d = loc_setitem_na L df (mask_or below above) n"
      by (auto simp: check_range_def dest!: bind_err_Inr)
    have "d = map_col n (\<lambda>xs. mask_set (mask_or below above) (Missing (na_for L xs)) xs) df"
      by (simp add: d loc_setitem_na_map_col)
    also have "\<dots> = map_col n (range_rule L lo hi) df"
      using cmp_scalar_Inr [OF b [unfolded lt_scalar_def]] cmp_scalar_Inr [OF a [unfolded gt_scalar_def]]
      by (intro map_col_cong_get [OF c]) (simp add: range_steps range_rule_def)
    finally show ?thesis .
  qed
next
  assume c: "getitem df n = Inr c"
  then have "n \<in> set (columns df)" by (rule getitem_mem)
  with assms c obtain below where "lt_scalar c lo = Inr below"
    by (auto simp: check_range_def dest!: bind_err_Inr)
  then show "list_all comparable c"
    using cmp_scalar_Inr unfolding lt_scalar_def by blast
qed

lemma set_columns_map:
  "set_columns (map f (columns df)) df = map (\<lambda>(m, xs). (f m, xs)) df"
  by (induction df) (auto simp: set_columns_def columns_def)

lemma map_col_rule:
  "map_col ''longitude'' (range_rule L (- 180) 180)
    (map_col ''latitude'' (range_rule L (- 90) 90)
      (map_col ''injuries'' (to_numeric L)
        (map_col ''city'' (city_rule L)
          (map_col ''crash_date'' (to_datetime L) df))))
   = map (\<lambda>(m, xs). (m, col_rule L m xs)) df"
  unfolding map_col_def map_map
  by (rule map_cong) (auto simp: col_rule_def)

lemma normalized_Inr:
  assumes "normalized L df = Inr d"
  shows "d = map (\<lambda>(m, xs). (normalize_name m, col_rule L (normalize_name m) xs)) df"
proof -
  let ?df0 = "map (\<lambda>(m, xs). (normalize_name m, xs)) df"
  from assms obtain d1 d2 d3 d4 where
      s1: "parse_dates L ?df0 = Inr d1" and s2: "standardize_city L d1 = Inr d2"
      and s3: "coerce_injuries L d2 = Inr d3"
      and s4: "check_range L ''latitude'' (- 90) 90 d3 = Inr d4"
      and s5: "check_range L ''longitude'' (- 180) 180 d4 = Inr d"
    unfolding normalized_def Let_def set_columns_map
    by (auto dest!: bind_err_Inr)
  have "d = map (\<lambda>(m, xs). (m, col_rule L m xs)) ?df0"
    unfolding check_range_Inr(1) [OF s5] check_range_Inr(1) [OF s4] coerce_injuries_Inr [OF s3]
      standardize_city_Inr [OF s2] parse_dates_Inr [OF s1]
    by (rule map_col_rule)
  then show ?thesis by (simp add: case_prod_unfold comp_def)
qed

section \<open>Removal of duplicate rows\<close>


lemma select_rows_subset: "set (select_rows keep xs) \<subseteq> set xs"
proof
  fix x assume "x \<in> set (select_rows keep xs)"
  then obtain b where "(b, x) \<in> set (zip keep xs)" by (auto simp: select_rows_def)
  then show "x \<in> set xs" by (rule set_zip_rightD)
qed














lemma clean_data_Inr:
  "clean_data L df = Inr out \<Longrightarrow> \<exists>d. normalized L df = Inr d \<and> out = drop_duplicates L d"
  by (auto simp: clean_data_def dest!: bind_err_Inr)

section \<open>The store version computes the same table\<close>

lemma in_place_last:
  "in_place (length h) step (h @ [t]) = bind_err (step t) (\<lambda>t'. Inr (h @ [t']))"
  by (simp add: in_place_def)

lemma clean_data_heap_eq:
  "clean_data_heap L r h =
     bind_err (normalized L (h ! r)) (\<lambda>d. Inr (Suc (length h), h @ [d, drop_duplicates L d]))"
proof -
  have b: "\<And>x f g. bind_err (bind_err x f) g = bind_err x (\<lambda>y. bind_err (f y) g)"
    by (simp add: bind_err_def split: sum.splits)
  have i: "\<And>y f. bind_err (Inr y) f = f y" by (simp add: bind_err_def)
  show ?thesis
    unfolding clean_data_heap_def copy_def normalized_def Let_def prod.case
    by (simp add: in_place_last b i nth_append)
qed

section \<open>Columns of the cleaned table\<close>

lemma map_col_keeps: "(n, xs) \<in> set df \<Longrightarrow> k \<noteq> n \<Longrightarrow> (n, xs) \<in> set (map_col k f df)"
  by (force simp: map_col_def)

lemma check_range_comparable:
  assumes "check_range L n lo hi df = Inr d" and "(n, xs) \<in> set df"
  shows "list_all comparable xs"
proof -
  from assms(2) have "n \<in> set (columns df)" by (force simp: columns_def)
  with assms(1) obtain c where c: "getitem df n = Inr c"
    by (auto simp: check_range_def dest!: bind_err_Inr)
  from getitem_unique [OF c assms(2)] check_range_Inr(2) [OF assms(1) c] show ?thesis by simp
qed

lemma normalized_comparable:
  assumes "normalized L df = Inr d" and "(m, xs) \<in> set df"
    and "normalize_name m = ''latitude'' \<or> normalize_name m = ''longitude''"
  shows "list_all comparable xs"
proof -
  let ?df0 = "map (\<lambda>(m, xs). (normalize_name m, xs)) df"
  from assms(1) obtain d1 d2 d3 d4 where
      s1: "parse_dates L ?df0 = Inr d1" and s2: "standardize_city L d1 = Inr d2"
      and s3: "coerce_injuries L d2 = Inr d3"
      and s4: "check_range L ''latitude'' (- 90) 90 d3 = Inr d4"
      and s5: "check_range L ''longitude'' (- 180) 180 d4 = Inr d"
    unfolding normalized_def Let_def set_columns_map
    by (auto dest!: bind_err_Inr)
  have m0: "(normalize_name m, xs) \<in> set ?df0" using assms(2) by force
  from assms(3) show ?thesis
  proof
    assume n: "normalize_name m = ''latitude''"
    have "(''latitude'', xs) \<in> set d3"
      unfolding coerce_injuries_Inr [OF s3] standardize_city_Inr [OF s2] parse_dates_Inr [OF s1]
      using m0 unfolding n by (intro map_col_keeps) simp_all
    then show ?thesis by (rule check_range_comparable [OF s4])
  next
    assume n: "normalize_name m = ''longitude''"
    have "(''longitude'', xs) \<in> set d4"
      unfolding check_range_Inr(1) [OF s4] coerce_injuries_Inr [OF s3]
        standardize_city_Inr [OF s2] parse_dates_Inr [OF s1]
      using m0 unfolding n by (intro map_col_keeps) simp_all
    then show ?thesis by (rule check_range_comparable [OF s5])
  qed
qed

lemma range_cell_comparable:
  "comparable c \<Longrightarrow>
     isna (range_cell (Missing m) lo hi c) \<or>
     (\<exists>x. range_cell (Missing m) lo hi c = Num x \<and> lo \<le> x \<and> x \<le> hi)"
  by (cases c) (auto simp: range_cell_def comparable_def isna_def)

lemma drop_duplicates_column:
  "(n, xs) \<in> set (drop_duplicates L d) \<Longrightarrow>
     \<exists>ys. (n, ys) \<in> set d \<and> xs = select_rows (map Not (duplicated L d)) ys"
  by (auto simp: drop_duplicates_def Let_def)

lemma normalized_column:
  assumes "normalized L df = Inr d" and "(n, ys) \<in> set d"
  shows "\<exists>m xs. (m, xs) \<in> set df \<and> n = normalize_name m \<and> ys = col_rule L n xs"
  using assms(2) unfolding normalized_Inr [OF assms(1)] by auto

lemma normalized_nth:
  assumes "normalized L df = Inr d" and "j < length df"
  shows "d ! j = (normalize_name (fst (df ! j)), col_rule L (normalize_name (fst (df ! j))) (snd (df ! j)))"
  unfolding normalized_Inr [OF assms(1)] using assms(2) by (simp add: case_prod_unfold)

lemma columns_drop_duplicates: "columns (drop_duplicates L d) = columns d"
  by (simp add: drop_duplicates_def columns_def Let_def case_prod_unfold comp_def)

lemma columns_normalized:
  assumes "normalized L df = Inr d"
  shows "columns d = map normalize_name (columns df)"
  unfolding normalized_Inr [OF assms] by (simp add: columns_def case_prod_unfold comp_def)

lemma drop_duplicates_nth:
  "j < length d \<Longrightarrow>
     drop_duplicates L d ! j = (fst (d ! j), select_rows (map Not (duplicated L d)) (snd (d ! j)))"
  by (simp add: drop_duplicates_def Let_def case_prod_unfold)

lemma length_normalized:
  assumes "normalized L df = Inr d"
  shows "length d = length df"
  unfolding normalized_Inr [OF assms] by simp

section \<open>Lines of the data dictionary\<close>

lemma getitem_distinct:
  "distinct (columns df) \<Longrightarrow> (n, xs) \<in> set df \<Longrightarrow> getitem df n = Inr xs"
proof -
  assume d: "distinct (columns df)" and m: "(n, xs) \<in> set df"
  have "filter (\<lambda>(k, ys). k = n) df = [(n, xs)]" using d m
  proof (induction df)
    case Nil
    then show ?case by simp
  next
    case (Cons a df)
    obtain k ys where a: "a = (k, ys)" by (cases a)
    show ?case
    proof (cases "k = n")
      case True
      with Cons.prems a have nn: "n \<notin> fst ` set df" by (simp add: columns_def)
      then have nm: "\<And>b. (n, b) \<notin> set df" by (metis fst_conv image_eqI)
      have e: "filter (\<lambda>(k, ys). k = n) df = []"
        by (auto simp: filter_empty_conv nm)
      from nm Cons.prems(2) a True have "ys = xs" by simp
      with e a True show ?thesis by simp
    next
      case False
      with Cons a show ?thesis by (simp add: columns_def)
    qed
  qed
  then show ?thesis by (simp add: getitem_def)
qed

lemma column_entries_distinct:
  "distinct (columns df) \<Longrightarrow> set cs \<subseteq> set df \<Longrightarrow>
     column_entries dtype df (map fst cs)
       = Inr (map (\<lambda>(col, s). entry col (dtype s) (missing s)) cs)"
proof (induction cs)
  case Nil
  then show ?case by simp
next
  case (Cons c cs)
  obtain n s where c: "c = (n, s)" by (cases c)
  with Cons.prems have g: "getitem df n = Inr s" by (simp add: getitem_distinct)
  from Cons have "column_entries dtype df (map fst cs)
       = Inr (map (\<lambda>(col, s). entry col (dtype s) (missing s)) cs)" by simp
  with g c show ?case by (simp add: bind_err_def)
qed

section \<open>Cells of the cleaned columns\<close>












lemma cleaned_column:
  assumes "clean_data L df = Inr out" and "(n, xs) \<in> set out"
  shows "\<exists>m zs. (m, zs) \<in> set df \<and> n = normalize_name m \<and> set xs \<subseteq> set (col_rule L n zs)"
proof -
  from clean_data_Inr [OF assms(1)] obtain d where d: "normalized L df = Inr d"
    and o: "out = drop_duplicates L d" by blast
  from assms(2) obtain ys where ys: "(n, ys) \<in> set d"
      and xs: "xs = select_rows (map Not (duplicated L d)) ys"
    unfolding o by (blast dest: drop_duplicates_column)
  have "set xs \<subseteq> set ys" unfolding xs by (rule select_rows_subset)
  with normalized_column [OF d ys] show ?thesis by blast
qed


lemma cleaned_coordinate_cells:
  assumes "clean_data L df = Inr out" and "(n, xs) \<in> set out" and "c \<in> set xs"
  shows "(n = ''latitude'' \<longrightarrow> isna c \<or> (\<exists>x. c = Num x \<and> - 90 \<le> x \<and> x \<le> 90)) \<and>
         (n = ''longitude'' \<longrightarrow> isna c \<or> (\<exists>x. c = Num x \<and> - 180 \<le> x \<and> x \<le> 180))"
proof -
  from clean_data_Inr [OF assms(1)] obtain d where d: "normalized L df = Inr d" by blast
  from cleaned_column [OF assms(1,2)] obtain m zs where m: "(m, zs) \<in> set df"
    and n: "n = normalize_name m" and sub: "set xs \<subseteq> set (col_rule L n zs)" by blast
  from sub assms(3) have cy: "c \<in> set (col_rule L n zs)" by blast
  show ?thesis
  proof (intro conjI impI)
    assume l: "n = ''latitude''"
    then have "list_all comparable zs" using normalized_comparable [OF d m] n by simp
    moreover from cy l obtain z where "z \<in> set zs" "c = range_cell (Missing (na_for L zs)) (- 90) 90 z"
      by (auto simp: col_rule_def range_rule_def)
    ultimately show "isna c \<or> (\<exists>x. c = Num x \<and> - 90 \<le> x \<and> x \<le> 90)"
      using range_cell_comparable [of z "na_for L zs" "- 90" 90] by (auto simp: list_all_iff)
  next
    assume l: "n = ''longitude''"
    then have "list_all comparable zs" using normalized_comparable [OF d m] n by simp
    moreover from cy l obtain z where "z \<in> set zs" "c = range_cell (Missing (na_for L zs)) (- 180) 180 z"
      by (auto simp: col_rule_def range_rule_def)
    ultimately show "isna c \<or> (\<exists>x. c = Num x \<and> - 180 \<le> x \<and> x \<le> 180)"
      using range_cell_comparable [of z "na_for L zs" "- 180" 180] by (auto simp: list_all_iff)
  qed
qed

section \<open>Tables that the cleaning function accepts\<close>

lemma getitem_once:
  assumes "length (filter (\<lambda>(m, xs). m = n) df) \<le> 1" and "(n, c) \<in> set df"
  shows "getitem df n = Inr c"
proof -
  let ?f = "filter (\<lambda>(m, xs). m = n) df"
  have m: "(n, c) \<in> set ?f" using assms(2) by simp
  from m obtain a rest where f: "?f = a # rest" by (cases ?f) auto
  with assms(1) have "rest = []" by simp
  with f m have "?f = [(n, c)]" by simp
  then show ?thesis by (simp add: getitem_def)
qed

lemma once_labels:
  "(length (filter (\<lambda>(m, xs). m = n) df) \<le> 1) = (length (filter (\<lambda>m. m = n) (columns df)) \<le> 1)"
proof -
  have "length (filter (\<lambda>(m, xs). m = n) df) = length (filter (\<lambda>m. m = n) (map fst df))"
    by (induction df) auto
  then show ?thesis by (simp add: columns_def)
qed

lemma present_column: "n \<in> set (columns df) \<Longrightarrow> \<exists>c. (n, c) \<in> set df"
  by (auto simp: columns_def)

lemma getitem_present:
  assumes "length (filter (\<lambda>m. m = n) (columns df)) \<le> 1" and "n \<in> set (columns df)"
  shows "\<exists>c. getitem df n = Inr c \<and> (n, c) \<in> set df"
proof -
  from assms(2) obtain c where c: "(n, c) \<in> set df" by (blast dest: present_column)
  have "length (filter (\<lambda>(m, xs). m = n) df) \<le> 1" unfolding once_labels by (rule assms(1))
  from getitem_once [OF this c] c show ?thesis by blast
qed

lemma parse_dates_ok:
  assumes "length (filter (\<lambda>m. m = ''crash_date'') (columns df)) \<le> 1"
  shows "parse_dates L df = Inr (map_col ''crash_date'' (to_datetime L) df)"
proof (cases "''crash_date'' \<in> set (columns df)")
  case False
  then show ?thesis by (simp add: parse_dates_def map_col_absent)
next
  case True
  from getitem_present [OF assms True] obtain c where c: "getitem df ''crash_date'' = Inr c"
    by blast
  show ?thesis using True by (simp add: parse_dates_def c bind_err_def setitem_map_col [OF c])
qed

lemma coerce_injuries_ok:
  assumes "length (filter (\<lambda>m. m = ''injuries'') (columns df)) \<le> 1"
  shows "coerce_injuries L df = Inr (map_col ''injuries'' (to_numeric L) df)"
proof (cases "''injuries'' \<in> set (columns df)")
  case False
  then show ?thesis by (simp add: coerce_injuries_def map_col_absent)
next
  case True
  from getitem_present [OF assms True] obtain c where c: "getitem df ''injuries'' = Inr c"
    by blast
  show ?thesis using True by (simp add: coerce_injuries_def c bind_err_def setitem_map_col [OF c])
qed

lemma standardize_city_ok:
  assumes "length (filter (\<lambda>m. m = ''city'') (columns df)) \<le> 1"
  shows "standardize_city L df = Inr (map_col ''city'' (city_rule L) df)"
proof (cases "''city'' \<in> set (columns df)")
  case False
  then show ?thesis by (simp add: standardize_city_def map_col_absent)
next
  case True
  from getitem_present [OF assms True] obtain c where c: "getitem df ''city'' = Inr c" by blast
  define c1 where "c1 = (\<lambda>c. str_strip (astype_str L c))"
  define blank where
    "blank = (\<lambda>xs. mask_set (eq_scalar (c1 c) (Str [])) (Missing (na_for L xs)) xs)"
  have df1: "setitem df ''city'' (str_strip (astype_str L c)) = map_col ''city'' c1 df"
    unfolding c1_def by (rule setitem_map_col [OF c])
  have g1: "getitem (map_col ''city'' c1 df) ''city'' = Inr (c1 c)"
    by (rule getitem_map_col [OF c])
  have l: "loc_setitem_na L (map_col ''city'' c1 df) (eq_scalar (c1 c) (Str [])) ''city''
      = map_col ''city'' blank (map_col ''city'' c1 df)"
    by (simp add: loc_setitem_na_map_col blank_def)
  have g2: "getitem (map_col ''city'' blank (map_col ''city'' c1 df)) ''city'' = Inr (blank (c1 c))"
    by (rule getitem_map_col [OF g1])
  have "\<exists>d. standardize_city L df = Inr d"
    using True by (simp add: standardize_city_def c bind_err_def df1 [unfolded c1_def] g1 [unfolded c1_def]
        l [unfolded c1_def] g2 [unfolded c1_def] Let_def)
  then obtain d where d: "standardize_city L df = Inr d" ..
  show ?thesis unfolding d using standardize_city_Inr [OF d] by simp
qed

lemma check_range_ok:
  assumes "length (filter (\<lambda>m. m = n) (columns df)) \<le> 1"
    and "\<And>xs. (n, xs) \<in> set df \<Longrightarrow> list_all comparable xs"
  shows "check_range L n lo hi df = Inr (map_col n (range_rule L lo hi) df)"
proof (cases "n \<in> set (columns df)")
  case False
  then show ?thesis by (simp add: check_range_def map_col_absent)
next
  case True
  from getitem_present [OF assms(1) True] obtain c where c: "getitem df n = Inr c"
    and m: "(n, c) \<in> set df" by blast
  have k: "list_all comparable c" by (rule assms(2) [OF m])
  have "\<exists>d. check_range L n lo hi df = Inr d"
    using True k by (simp add: check_range_def c bind_err_def lt_scalar_def gt_scalar_def cmp_scalar_def)
  then obtain d where d: "check_range L n lo hi df = Inr d" ..
  show ?thesis unfolding d using check_range_Inr(1) [OF d] by simp
qed

lemma map_col_member:
  "(n, xs) \<in> set (map_col k f df) \<Longrightarrow> k \<noteq> n \<Longrightarrow> (n, xs) \<in> set df"
  by (auto simp: map_col_def split: if_splits)

lemma normalized_ok:
  assumes o: "\<And>n. n \<in> {''crash_date'', ''city'', ''injuries'', ''latitude'', ''longitude''} \<Longrightarrow>
      length (filter (\<lambda>m. m = n) (map normalize_name (columns df))) \<le> 1"
    and k: "\<And>m xs. (m, xs) \<in> set df \<Longrightarrow>
      normalize_name m = ''latitude'' \<or> normalize_name m = ''longitude'' \<Longrightarrow> list_all comparable xs"
  shows "normalized L df = Inr (map (\<lambda>(m, xs). (normalize_name m, col_rule L (normalize_name m) xs)) df)"
proof -
  let ?df0 = "map (\<lambda>(m, xs). (normalize_name m, xs)) df"
  let ?d1 = "map_col ''crash_date'' (to_datetime L) ?df0"
  let ?d2 = "map_col ''city'' (city_rule L) ?d1"
  let ?d3 = "map_col ''injuries'' (to_numeric L) ?d2"
  let ?d4 = "map_col ''latitude'' (range_rule L (- 90) 90) ?d3"
  let ?d5 = "map_col ''longitude'' (range_rule L (- 180) 180) ?d4"
  have c0: "columns ?df0 = map normalize_name (columns df)"
    by (simp add: columns_def case_prod_unfold comp_def)
  have a: "length (filter (\<lambda>m. m = ''crash_date'') (columns ?df0)) \<le> 1"
    "length (filter (\<lambda>m. m = ''city'') (columns ?d1)) \<le> 1"
    "length (filter (\<lambda>m. m = ''injuries'') (columns ?d2)) \<le> 1"
    "length (filter (\<lambda>m. m = ''latitude'') (columns ?d3)) \<le> 1"
    "length (filter (\<lambda>m. m = ''longitude'') (columns ?d4)) \<le> 1"
    unfolding columns_map_col c0 by (rule o, simp)+
  have k0: "list_all comparable xs"
    if "(n, xs) \<in> set ?df0" "n = ''latitude'' \<or> n = ''longitude''" for n xs
    using that k by auto
  have k3: "list_all comparable xs" if "(''latitude'', xs) \<in> set ?d3" for xs
  proof -
    from that have "(''latitude'', xs) \<in> set ?df0"
      by (auto dest!: map_col_member)
    then show ?thesis by (rule k0) simp
  qed
  have k4: "list_all comparable xs" if "(''longitude'', xs) \<in> set ?d4" for xs
  proof -
    from that have "(''longitude'', xs) \<in> set ?df0"
      by (auto dest!: map_col_member)
    then show ?thesis by (rule k0) simp
  qed
  have "normalized L df = Inr ?d5"
    unfolding normalized_def Let_def set_columns_map
    by (simp add: bind_err_def parse_dates_ok [OF a(1)] standardize_city_ok [OF a(2)]
        coerce_injuries_ok [OF a(3)] check_range_ok [OF a(4) k3] check_range_ok [OF a(5) k4])
  also have "?d5 = map (\<lambda>(m, xs). (m, col_rule L m xs)) ?df0" by (rule map_col_rule)
  also have "\<dots> = map (\<lambda>(m, xs). (normalize_name m, col_rule L (normalize_name m) xs)) df"
    by (simp add: case_prod_unfold comp_def)
  finally show ?thesis .
qed








section \<open>Removal of duplicates from a table without duplicates\<close>







section \<open>Cleaning a cleaned table\<close>




section \<open>Decimal numerals\<close>

lemma number_of_append: "number_of (s @ [c]) = 10 * number_of s + digit_val c"
  by (simp add: number_of_def)

lemma digit_val_char: "n < 10 \<Longrightarrow> digit_val (char_of (48 + n)) = n"
  by (simp add: digit_val_def)

lemma is_digit_char: "(n::nat) < 10 \<Longrightarrow> is_digit (char_of (48 + n))"
  by (simp add: is_digit_def Let_def)

lemma number_of_digits_of: "number_of (digits_of n) = n"
proof (induction n rule: digits_of.induct)
  case (1 n)
  show ?case
  proof (cases "n < 10")
    case True
    then show ?thesis
      by (subst digits_of.simps) (simp add: number_of_def digit_val_char)
  next
    case False
    with 1 have "number_of (digits_of (n div 10)) = n div 10" by simp
    with False show ?thesis
      by (subst digits_of.simps) (simp add: number_of_append digit_val_char)
  qed
qed

lemma is_digit_digits_of: "list_all is_digit (digits_of n)"
proof (induction n rule: digits_of.induct)
  case (1 n)
  show ?case
  proof (cases "n < 10")
    case True
    then show ?thesis
      by (subst digits_of.simps) (simp add: is_digit_char)
  next
    case False
    with 1 have "list_all is_digit (digits_of (n div 10))" by simp
    with False show ?thesis
      by (subst digits_of.simps) (simp add: is_digit_char)
  qed
qed

section \<open>The built-in sample\<close>

lemma fallback_cleaned: "clean_data example_pandas (load_data None) = Inr cleaned_fallback"
  by code_simp

lemma fallback_cleaned_legacy:
  "clean_data legacy_pandas (load_data None)
     = Inr (map_col ''city'' (\<lambda>xs. xs[3 := Missing PdNA]) cleaned_fallback)"
  by code_simp



section \<open>Results\<close>

subsection \<open>Column-name normalisation\<close>

text \<open>
  C9. Column-name normalisation (\<open>c.strip().lower().replace(" ", "_")\<close>, line 50 of
  \<open>clean_data\<close>) is a function of the name alone, and it is idempotent: normalising a
  name that is already normalised gives the same name.
\<close>

theorem normalize_name_idempotent:
  "normalize_name (normalize_name c) = normalize_name c"
  by (rule normalize_name_idem)

theorem normalize_name_idempotent_witness:
  "normalize_name ''  Crash Date '' = ''crash_date'' \<and>
   normalize_name (normalize_name ''  Crash Date '') = ''crash_date''"
proof -
  have e: "normalize_name ''  Crash Date '' = ''crash_date''" by code_simp
  show ?thesis using normalize_name_idempotent [of "''  Crash Date ''"] e by simp
qed

subsection \<open>Duplicate rows\<close>



subsection \<open>The caller's table\<close>

text \<open>
  C8. \<open>clean_data\<close> returns a new table and does not change the one it is given: when the
  function returns, the object the caller passed holds the same table as before (the same
  column names, the same number of rows, the same cells), as does every other object that
  existed; the result is a different, new object, and it holds the cleaned table.
\<close>

theorem clean_data_leaves_input_unchanged:
  assumes "r < length h" and "clean_data_heap L r h = Inr (r', h')"
  shows "h' ! r = h ! r \<and> take (length h) h' = h \<and> r' \<noteq> r \<and> r' < length h' \<and>
         clean_data L (h ! r) = Inr (h' ! r') \<and>
         columns (h' ! r) = columns (h ! r) \<and> nrows (h' ! r) = nrows (h ! r)"
proof -
  from assms(2) obtain d where d: "normalized L (h ! r) = Inr d"
      and r': "r' = Suc (length h)" and h': "h' = h @ [d, drop_duplicates L d]"
    unfolding clean_data_heap_eq by (auto dest!: bind_err_Inr)
  have "h' ! r = h ! r" using assms(1) by (simp add: h' nth_append)
  moreover have "h' ! r' = drop_duplicates L d" by (simp add: h' r' nth_append)
  ultimately show ?thesis using assms(1) d
    by (simp add: h' r' clean_data_def bind_err_def)
qed

theorem clean_data_leaves_input_unchanged_witness:
  "(0::nat) < length [[(''City'', [Str ''a ''])]] \<and>
   clean_data_heap example_pandas 0 [[(''City'', [Str ''a ''])]]
     = Inr (2, [[(''City'', [Str ''a ''])], [(''city'', [Str ''A''])], [(''city'', [Str ''A''])]]) \<and>
   [[(''City'', [Str ''a ''])], [(''city'', [Str ''A''])], [(''city'', [Str ''A''])]] ! 0
     = [[(''City'', [Str ''a ''])]] ! 0"
proof -
  have l: "(0::nat) < length [[(''City'', [Str ''a ''])]]" by simp
  have c: "clean_data_heap example_pandas 0 [[(''City'', [Str ''a ''])]]
      = Inr (2, [[(''City'', [Str ''a ''])], [(''city'', [Str ''A''])], [(''city'', [Str ''A''])]])"
    by code_simp
  from clean_data_leaves_input_unchanged [OF l c] l c show ?thesis by simp
qed

subsection \<open>Coordinates\<close>

text \<open>
  C4. In every table that \<open>clean_data\<close> returns, every cell of the \<open>latitude\<close> column is
  missing or a number in the closed interval from -90 to 90, and every cell of the
  \<open>longitude\<close> column is missing or a number in the closed interval from -180 to 180.
  Before duplicates are removed, the column is the input column with \<open>range_cell\<close> applied
  to each cell: a number strictly below the lower bound or strictly above the upper bound
  becomes the missing value of the column, and a missing cell stays as it is.
\<close>

theorem coordinates_within_range:
  assumes "clean_data L df = Inr out"
  shows "(\<forall>(n, xs) \<in> set out. \<forall>c \<in> set xs.
            (n = ''latitude'' \<longrightarrow> isna c \<or> (\<exists>x. c = Num x \<and> - 90 \<le> x \<and> x \<le> 90)) \<and>
            (n = ''longitude'' \<longrightarrow> isna c \<or> (\<exists>x. c = Num x \<and> - 180 \<le> x \<and> x \<le> 180))) \<and>
         (\<exists>d. normalized L df = Inr d \<and> out = drop_duplicates L d \<and>
            (\<forall>j < length df.
               (normalize_name (fst (df ! j)) = ''latitude'' \<longrightarrow>
                  d ! j = (''latitude'',
                    map (range_cell (Missing (na_for L (snd (df ! j)))) (- 90) 90) (snd (df ! j)))) \<and>
               (normalize_name (fst (df ! j)) = ''longitude'' \<longrightarrow>
                  d ! j = (''longitude'',
                    map (range_cell (Missing (na_for L (snd (df ! j)))) (- 180) 180) (snd (df ! j)))))) \<and>
         (\<forall>v lo hi x. range_cell v lo hi (Num x) = (if x < lo \<or> hi < x then v else Num x)) \<and>
         (\<forall>v lo hi m. range_cell v lo hi (Missing m) = Missing m)"
proof -
  from clean_data_Inr [OF assms] obtain d where d: "normalized L df = Inr d"
    and o: "out = drop_duplicates L d" by blast
  have cell: "(n = ''latitude'' \<longrightarrow> isna c \<or> (\<exists>x. c = Num x \<and> - 90 \<le> x \<and> x \<le> 90)) \<and>
              (n = ''longitude'' \<longrightarrow> isna c \<or> (\<exists>x. c = Num x \<and> - 180 \<le> x \<and> x \<le> 180))"
    if nx: "(n, xs) \<in> set out" and c: "c \<in> set xs" for n xs c
    by (rule cleaned_coordinate_cells [OF assms nx c])
  have rule: "(normalize_name (fst (df ! j)) = ''latitude'' \<longrightarrow>
                  d ! j = (''latitude'',
                    map (range_cell (Missing (na_for L (snd (df ! j)))) (- 90) 90) (snd (df ! j)))) \<and>
               (normalize_name (fst (df ! j)) = ''longitude'' \<longrightarrow>
                  d ! j = (''longitude'',
                    map (range_cell (Missing (na_for L (snd (df ! j)))) (- 180) 180) (snd (df ! j))))"
    if "j < length df" for j
    by (simp add: normalized_nth [OF d that] col_rule_def range_rule_def)
  have r1: "\<forall>v lo hi x. range_cell v lo hi (Num x) = (if x < lo \<or> hi < x then v else Num x)"
    by (simp add: range_cell_def)
  have r2: "\<forall>v lo hi m. range_cell v lo hi (Missing m) = Missing m"
    by (simp add: range_cell_def)
  from cell have a: "\<forall>(n, xs) \<in> set out. \<forall>c \<in> set xs.
            (n = ''latitude'' \<longrightarrow> isna c \<or> (\<exists>x. c = Num x \<and> - 90 \<le> x \<and> x \<le> 90)) \<and>
            (n = ''longitude'' \<longrightarrow> isna c \<or> (\<exists>x. c = Num x \<and> - 180 \<le> x \<and> x \<le> 180))"
    by blast
  from rule d o have b: "\<exists>d. normalized L df = Inr d \<and> out = drop_duplicates L d \<and>
            (\<forall>j < length df.
               (normalize_name (fst (df ! j)) = ''latitude'' \<longrightarrow>
                  d ! j = (''latitude'',
                    map (range_cell (Missing (na_for L (snd (df ! j)))) (- 90) 90) (snd (df ! j)))) \<and>
               (normalize_name (fst (df ! j)) = ''longitude'' \<longrightarrow>
                  d ! j = (''longitude'',
                    map (range_cell (Missing (na_for L (snd (df ! j)))) (- 180) 180) (snd (df ! j)))))"
    by blast
  show ?thesis by (intro conjI a b r1 r2)
qed

theorem coordinates_within_range_witness:
  "clean_data example_pandas [(''Latitude'', [Num 91, Num 39.1, Missing NaN, Num (- 90)]),
                              (''Longitude'', [Num 0, Num (- 180.5), Missing NaN, Num 180])]
     = Inr [(''latitude'', [Missing NaN, Num 39.1, Missing NaN, Num (- 90)]),
            (''longitude'', [Num 0, Missing NaN, Missing NaN, Num 180])] \<and>
   normalized example_pandas [(''Latitude'', [Num 91, Num 39.1, Missing NaN, Num (- 90)]),
                              (''Longitude'', [Num 0, Num (- 180.5), Missing NaN, Num 180])]
     = Inr [(''latitude'', [Missing NaN, Num 39.1, Missing NaN, Num (- 90)]),
            (''longitude'', [Num 0, Missing NaN, Missing NaN, Num 180])]"
proof -
  have c: "clean_data example_pandas [(''Latitude'', [Num 91, Num 39.1, Missing NaN, Num (- 90)]),
                              (''Longitude'', [Num 0, Num (- 180.5), Missing NaN, Num 180])]
     = Inr [(''latitude'', [Missing NaN, Num 39.1, Missing NaN, Num (- 90)]),
            (''longitude'', [Num 0, Missing NaN, Missing NaN, Num 180])]"
    by code_simp
  from coordinates_within_range [OF c] obtain d where
    "normalized example_pandas [(''Latitude'', [Num 91, Num 39.1, Missing NaN, Num (- 90)]),
                              (''Longitude'', [Num 0, Num (- 180.5), Missing NaN, Num 180])] = Inr d"
    by blast
  moreover
  have "normalized example_pandas [(''Latitude'', [Num 91, Num 39.1, Missing NaN, Num (- 90)]),
                              (''Longitude'', [Num 0, Num (- 180.5), Missing NaN, Num 180])]
     = Inr [(''latitude'', [Missing NaN, Num 39.1, Missing NaN, Num (- 90)]),
            (''longitude'', [Num 0, Missing NaN, Missing NaN, Num 180])]"
    by code_simp
  ultimately show ?thesis using c by simp
qed

subsection \<open>Columns that no rule names\<close>

text \<open>
  C10, as the code has it. \<open>clean_data\<close> keeps the number and the order of the columns and
  renames each to its normalised name. A column whose normalised name is none of
  \<open>crash_date\<close>, \<open>city\<close>, \<open>injuries\<close>, \<open>latitude\<close>, \<open>longitude\<close> has its cells unchanged
  by lines 50 to 70, and in the result it is that column restricted to the rows that the
  removal of duplicates keeps.
\<close>

theorem other_columns_pass_through:
  assumes "clean_data L df = Inr out"
  shows "length out = length df \<and> columns out = map normalize_name (columns df) \<and>
         (\<exists>d. normalized L df = Inr d \<and> out = drop_duplicates L d \<and>
            (\<forall>j < length df.
               normalize_name (fst (df ! j)) \<notin>
                 {''crash_date'', ''city'', ''injuries'', ''latitude'', ''longitude''} \<longrightarrow>
               snd (d ! j) = snd (df ! j) \<and>
               snd (out ! j) = select_rows (map Not (duplicated L d)) (snd (df ! j))))"
proof -
  from clean_data_Inr [OF assms] obtain d where d: "normalized L df = Inr d"
    and o: "out = drop_duplicates L d" by blast
  have l: "length d = length df" by (rule length_normalized [OF d])
  have c: "columns out = map normalize_name (columns df)"
    by (simp add: o columns_drop_duplicates columns_normalized [OF d])
  have lo: "length out = length df" using c by (metis columns_def length_map)
  have p: "snd (d ! j) = snd (df ! j) \<and>
           snd (out ! j) = select_rows (map Not (duplicated L d)) (snd (df ! j))"
    if j: "j < length df" and n: "normalize_name (fst (df ! j)) \<notin>
                 {''crash_date'', ''city'', ''injuries'', ''latitude'', ''longitude''}" for j
  proof -
    have "snd (d ! j) = snd (df ! j)"
      using n by (simp add: normalized_nth [OF d j] col_rule_def)
    then show ?thesis using j l by (simp add: o drop_duplicates_nth)
  qed
  from lo c d o p show ?thesis by blast
qed

theorem other_columns_pass_through_witness:
  "clean_data example_pandas [(''Road Name'', [Str '' main st'', Str ''ELM'']), (''City'', [Str ''a'', Str ''b ''])]
     = Inr [(''road_name'', [Str '' main st'', Str ''ELM'']), (''city'', [Str ''A'', Str ''B''])] \<and>
   columns [(''road_name'', [Str '' main st'', Str ''ELM'']), (''city'', [Str ''A'', Str ''B''])]
     = map normalize_name (columns [(''Road Name'', [Str '' main st'', Str ''ELM'']), (''City'', [Str ''a'', Str ''b ''])])"
proof -
  have c: "clean_data example_pandas [(''Road Name'', [Str '' main st'', Str ''ELM'']), (''City'', [Str ''a'', Str ''b ''])]
     = Inr [(''road_name'', [Str '' main st'', Str ''ELM'']), (''city'', [Str ''A'', Str ''B''])]"
    by code_simp
  from other_columns_pass_through [OF c] c show ?thesis by simp
qed

text \<open>
  The column itself is not always unchanged: a row that equals an earlier row is removed
  from every column, also from one that no rule names.
\<close>

theorem pass_through_column_loses_rows:
  "clean_data example_pandas [(''Note'', [Str ''a'', Str ''a''])] = Inr [(''note'', [Str ''a''])] \<and>
   normalize_name ''Note'' \<notin> {''crash_date'', ''city'', ''injuries'', ''latitude'', ''longitude''} \<and>
   [Str ''a''] \<noteq> [Str ''a'', Str ''a'']"
  by code_simp

subsection \<open>The data dictionary\<close>

text \<open>
  C7, as the code has it. For a table whose column labels are distinct,
  \<open>write_data_dictionary\<close> writes to \<open>DOC_FILE\<close> the four lines of the preamble followed by
  exactly one line per column, in the order of the columns; the line of a column is
  \<open>- **name** (type) \<dots> missing: N\<close>, where \<open>name\<close> is the label of the column, \<open>type\<close> the
  name pandas gives its storage type, \<open>N\<close> the number of its missing cells in decimal
  digits, and the text between them the separator of line 89.
\<close>

theorem data_dictionary_entries:
  assumes "distinct (columns df)"
  shows "write_data_dictionary dtype df fs =
           Inr (fs(DOC_FILE \<mapsto> concat (preamble @
             map (\<lambda>(col, s). ''- **'' @ col @ ''** ('' @ dtype s @ '') '' @ dash @ '' missing: ''
                     @ digits_of (length (filter isna s)) @ [CHR 0x0A]) df))) \<and>
         (\<forall>n. number_of (digits_of n) = n \<and> list_all is_digit (digits_of n))"
proof -
  have "column_entries dtype df (columns df)
       = Inr (map (\<lambda>(col, s). entry col (dtype s) (missing s)) df)"
    unfolding columns_def by (rule column_entries_distinct) (use assms in simp_all)
  then have "write_data_dictionary dtype df fs =
           Inr (fs(DOC_FILE \<mapsto> concat (preamble @
             map (\<lambda>(col, s). ''- **'' @ col @ ''** ('' @ dtype s @ '') '' @ dash @ '' missing: ''
                     @ digits_of (length (filter isna s)) @ [CHR 0x0A]) df)))"
    by (simp add: write_data_dictionary_def bind_err_def entry_def missing_def)
  moreover have "\<forall>n. number_of (digits_of n) = n \<and> list_all is_digit (digits_of n)"
    by (simp only: number_of_digits_of is_digit_digits_of simp_thms)
  ultimately show ?thesis ..
qed

theorem data_dictionary_entries_witness:
  "distinct (columns cleaned_fallback) \<and>
   write_data_dictionary example_dtype cleaned_fallback Map.empty
     = Inr [DOC_FILE \<mapsto> concat (preamble @
         [''- **crash_date** (datetime64[ns]) ''
            @ [CHR 0xC3, CHR 0xA2, CHR 0xE2, CHR 0x82, CHR 0xAC, CHR 0xE2, CHR 0x80, CHR 0x9D]
            @ '' missing: 2'' @ [CHR 0x0A],
          ''- **city** (object) ''
            @ [CHR 0xC3, CHR 0xA2, CHR 0xE2, CHR 0x82, CHR 0xAC, CHR 0xE2, CHR 0x80, CHR 0x9D]
            @ '' missing: 1'' @ [CHR 0x0A],
          ''- **injuries** (float64) ''
            @ [CHR 0xC3, CHR 0xA2, CHR 0xE2, CHR 0x82, CHR 0xAC, CHR 0xE2, CHR 0x80, CHR 0x9D]
            @ '' missing: 1'' @ [CHR 0x0A],
          ''- **latitude** (float64) ''
            @ [CHR 0xC3, CHR 0xA2, CHR 0xE2, CHR 0x82, CHR 0xAC, CHR 0xE2, CHR 0x80, CHR 0x9D]
            @ '' missing: 1'' @ [CHR 0x0A],
          ''- **longitude** (float64) ''
            @ [CHR 0xC3, CHR 0xA2, CHR 0xE2, CHR 0x82, CHR 0xAC, CHR 0xE2, CHR 0x80, CHR 0x9D]
            @ '' missing: 1'' @ [CHR 0x0A]])]"
proof -
  have d: "distinct (columns cleaned_fallback)"
    by (simp add: cleaned_fallback_def columns_def)
  have t: "map (\<lambda>(n, s). (n, example_dtype s, missing s)) cleaned_fallback =
      [(''crash_date'', ''datetime64[ns]'', 2), (''city'', ''object'', 1), (''injuries'', ''float64'', 1),
       (''latitude'', ''float64'', 1), (''longitude'', ''float64'', 1)]"
    by (simp add: cleaned_fallback_def example_dtype_def missing_def isna_def)
  have g: "digits_of 2 = ''2''" "digits_of (Suc 0) = ''1''"
    by code_simp+
  have u: "map (\<lambda>(col, s). ''- **'' @ col @ ''** ('' @ example_dtype s @ '') '' @ dash @ '' missing: ''
                     @ digits_of (length (filter isna s)) @ [CHR 0x0A]) cleaned_fallback
      = map (\<lambda>(col, ty, n). ''- **'' @ col @ ''** ('' @ ty @ '') '' @ dash @ '' missing: ''
                     @ digits_of n @ [CHR 0x0A])
          (map (\<lambda>(n, s). (n, example_dtype s, missing s)) cleaned_fallback)"
    by (simp add: case_prod_unfold comp_def missing_def)
  have e: "concat (preamble @
             map (\<lambda>(col, s). ''- **'' @ col @ ''** ('' @ example_dtype s @ '') '' @ dash @ '' missing: ''
                     @ digits_of (length (filter isna s)) @ [CHR 0x0A]) cleaned_fallback)
      = concat (preamble @
         [''- **crash_date** (datetime64[ns]) ''
            @ [CHR 0xC3, CHR 0xA2, CHR 0xE2, CHR 0x82, CHR 0xAC, CHR 0xE2, CHR 0x80, CHR 0x9D]
            @ '' missing: 2'' @ [CHR 0x0A],
          ''- **city** (object) ''
            @ [CHR 0xC3, CHR 0xA2, CHR 0xE2, CHR 0x82, CHR 0xAC, CHR 0xE2, CHR 0x80, CHR 0x9D]
            @ '' missing: 1'' @ [CHR 0x0A],
          ''- **injuries** (float64) ''
            @ [CHR 0xC3, CHR 0xA2, CHR 0xE2, CHR 0x82, CHR 0xAC, CHR 0xE2, CHR 0x80, CHR 0x9D]
            @ '' missing: 1'' @ [CHR 0x0A],
          ''- **latitude** (float64) ''
            @ [CHR 0xC3, CHR 0xA2, CHR 0xE2, CHR 0x82, CHR 0xAC, CHR 0xE2, CHR 0x80, CHR 0x9D]
            @ '' missing: 1'' @ [CHR 0x0A],
          ''- **longitude** (float64) ''
            @ [CHR 0xC3, CHR 0xA2, CHR 0xE2, CHR 0x82, CHR 0xAC, CHR 0xE2, CHR 0x80, CHR 0x9D]
            @ '' missing: 1'' @ [CHR 0x0A]])"
    unfolding u t by (simp add: g dash_def)
  from data_dictionary_entries [OF d, of example_dtype Map.empty, THEN conjunct1]
  have "write_data_dictionary example_dtype cleaned_fallback Map.empty
     = Inr [DOC_FILE \<mapsto> concat (preamble @
         [''- **crash_date** (datetime64[ns]) ''
            @ [CHR 0xC3, CHR 0xA2, CHR 0xE2, CHR 0x82, CHR 0xAC, CHR 0xE2, CHR 0x80, CHR 0x9D]
            @ '' missing: 2'' @ [CHR 0x0A],
          ''- **city** (object) ''
            @ [CHR 0xC3, CHR 0xA2, CHR 0xE2, CHR 0x82, CHR 0xAC, CHR 0xE2, CHR 0x80, CHR 0x9D]
            @ '' missing: 1'' @ [CHR 0x0A],
          ''- **injuries** (float64) ''
            @ [CHR 0xC3, CHR 0xA2, CHR 0xE2, CHR 0x82, CHR 0xAC, CHR 0xE2, CHR 0x80, CHR 0x9D]
            @ '' missing: 1'' @ [CHR 0x0A],
          ''- **latitude** (float64) ''
            @ [CHR 0xC3, CHR 0xA2, CHR 0xE2, CHR 0x82, CHR 0xAC, CHR 0xE2, CHR 0x80, CHR 0x9D]
            @ '' missing: 1'' @ [CHR 0x0A],
          ''- **longitude** (float64) ''
            @ [CHR 0xC3, CHR 0xA2, CHR 0xE2, CHR 0x82, CHR 0xAC, CHR 0xE2, CHR 0x80, CHR 0x9D]
            @ '' missing: 1'' @ [CHR 0x0A]])]"
    unfolding e .
  with d show ?thesis by (rule conjI)
qed

text \<open>
  Not every cleaned table has a dictionary. Two labels that differ before normalisation
  can be equal after it; \<open>clean_data\<close> returns such a table, and on it \<open>df[col]\<close> is not a
  Series, so that line 87 raises and no line is written for any column.
\<close>

theorem dictionary_of_equal_labels_fails:
  "clean_data example_pandas [(''Note'', [Str ''a'']), (''note'', [Str ''b''])]
     = Inr [(''note'', [Str ''a'']), (''note'', [Str ''b''])] \<and>
   write_data_dictionary example_dtype [(''note'', [Str ''a'']), (''note'', [Str ''b''])] Map.empty
     = Inl DuplicateLabel"
proof -
  have c: "clean_data example_pandas [(''Note'', [Str ''a'']), (''note'', [Str ''b''])]
     = Inr [(''note'', [Str ''a'']), (''note'', [Str ''b''])]"
    by code_simp
  have w: "write_data_dictionary example_dtype [(''note'', [Str ''a'']), (''note'', [Str ''b''])] Map.empty
     = Inl DuplicateLabel"
    by (simp add: write_data_dictionary_def columns_def getitem_def bind_err_def)
  from c w show ?thesis ..
qed

subsection \<open>The built-in sample\<close>

text \<open>
  C6 at the built-in sample. With no \<open>raw_data.csv\<close>, cleaning the built-in sample gives
  four rows, no two of them identical; the city of row 2 is \<open>Cincinnati\<close>, the date and the
  injuries count of row 3 are missing and the city of row 4 is missing. But the date of
  row 2 is missing as well: \<open>2026/05/02\<close> is a valid date, and \<open>to_datetime\<close> does not read
  it, because it is not in the format inferred from \<open>2026-05-01\<close>. So \<open>crash_date\<close> has
  two missing cells and not one; each of \<open>city\<close>, \<open>injuries\<close>, \<open>latitude\<close> and \<open>longitude\<close>
  has one. The counts are the same with the library before 3.0.
\<close>

theorem fallback_sample_cleaned:
  "clean_data example_pandas (load_data None) = Inr cleaned_fallback \<and>
   nrows cleaned_fallback = 4 \<and> distinct (rows cleaned_fallback) \<and>
   map (\<lambda>(n, s). (n, missing s)) cleaned_fallback =
     [(''crash_date'', 2), (''city'', 1), (''injuries'', 1), (''latitude'', 1), (''longitude'', 1)] \<and>
   getitem cleaned_fallback ''crash_date''
     = Inr [Date (YMD 2026 5 1), Missing NaT, Missing NaT, Date (YMD 2026 5 4)] \<and>
   bind_err (clean_data legacy_pandas (load_data None))
     (\<lambda>out. Inr (map (\<lambda>(n, s). (n, missing s)) out)) =
     Inr [(''crash_date'', 2), (''city'', 1), (''injuries'', 1), (''latitude'', 1), (''longitude'', 1)]"
proof -
  have n: "nrows cleaned_fallback = 4" by (simp add: cleaned_fallback_def nrows_def)
  have d: "distinct (rows cleaned_fallback)" by (simp add: cleaned_fallback_def rows_def nrows_def)
  have m: "map (\<lambda>(n, s). (n, missing s)) cleaned_fallback =
       [(''crash_date'', 2), (''city'', 1), (''injuries'', 1), (''latitude'', 1), (''longitude'', 1)]"
    by (simp add: cleaned_fallback_def missing_def isna_def)
  have g: "getitem cleaned_fallback ''crash_date''
     = Inr [Date (YMD 2026 5 1), Missing NaT, Missing NaT, Date (YMD 2026 5 4)]"
    by (simp add: cleaned_fallback_def getitem_def)
  have l: "bind_err (clean_data legacy_pandas (load_data None))
     (\<lambda>out. Inr (map (\<lambda>(n, s). (n, missing s)) out)) =
     Inr [(''crash_date'', 2), (''city'', 1), (''injuries'', 1), (''latitude'', 1), (''longitude'', 1)]"
    unfolding fallback_cleaned_legacy
    by (simp add: bind_err_def cleaned_fallback_def map_col_def missing_def isna_def)
  show ?thesis by (intro conjI fallback_cleaned n d m g l)
qed

subsection \<open>Cities\<close>




subsection \<open>Cleaning twice\<close>




subsection \<open>Text in a coordinate column\<close>

text \<open>
  C3 at an input with a text in the \<open>latitude\<close> column. Lines 68 and 70 compare the
  column with a number without converting it first (lines 54 and 64 convert theirs with
  \<open>errors="coerce"\<close>), and the comparison of a text with a number raises \<open>TypeError\<close>.
\<close>

theorem text_in_latitude_raises:
  "clean_data L [(''Latitude'', [Num 39.1, Str ''abc''])] = Inl TypeError"
  by code_simp

theorem text_in_latitude_raises_witness:
  "clean_data example_pandas [(''Latitude'', [Num 39.1, Str ''abc''])] = Inl TypeError"
  by (rule text_in_latitude_raises)

subsection \<open>Further properties\<close>

text \<open>
  When the normalised labels of a table are distinct and its coordinate columns hold only
  numbers and missing values, \<open>clean_data\<close> returns, and the result is the table with each
  column renamed and sent through \<open>col_rule\<close>, without its duplicate rows.
\<close>

theorem clean_data_returns:
  assumes "distinct (map normalize_name (columns df))"
    and "\<forall>(m, xs) \<in> set df.
           normalize_name m = ''latitude'' \<or> normalize_name m = ''longitude'' \<longrightarrow> list_all comparable xs"
  shows "clean_data L df =
           Inr (drop_duplicates L
                  (map (\<lambda>(m, xs). (normalize_name m, col_rule L (normalize_name m) xs)) df))"
proof -
  have o: "length (filter (\<lambda>m. m = n) (map normalize_name (columns df))) \<le> 1" for n
  proof -
    have "length (filter (\<lambda>m. m = n) (map normalize_name (columns df)))
        = card ({m. m = n} \<inter> set (map normalize_name (columns df)))"
      by (rule distinct_length_filter [OF assms(1)])
    also have "\<dots> \<le> card {n}" by (rule card_mono) auto
    finally show ?thesis by simp
  qed
  have "normalized L df = Inr (map (\<lambda>(m, xs). (normalize_name m, col_rule L (normalize_name m) xs)) df)"
    by (rule normalized_ok [OF o]) (use assms(2) in auto)
  then show ?thesis by (simp add: clean_data_def bind_err_def)
qed

theorem clean_data_returns_witness:
  "distinct (map normalize_name (columns [(''Latitude'', [Num 91, Missing NaN]), (''Road'', [Str ''x'', Str ''y''])])) \<and>
   clean_data example_pandas [(''Latitude'', [Num 91, Missing NaN]), (''Road'', [Str ''x'', Str ''y''])]
     = Inr [(''latitude'', [Missing NaN, Missing NaN]), (''road'', [Str ''x'', Str ''y''])]"
proof -
  have d: "distinct (map normalize_name (columns [(''Latitude'', [Num 91, Missing NaN]), (''Road'', [Str ''x'', Str ''y''])]))"
    by code_simp
  have k: "\<forall>(m, xs) \<in> set [(''Latitude'', [Num 91, Missing NaN]), (''Road'', [Str ''x'', Str ''y''])].
           normalize_name m = ''latitude'' \<or> normalize_name m = ''longitude'' \<longrightarrow> list_all comparable xs"
  proof -
    have "normalize_name ''Latitude'' = ''latitude''" "normalize_name ''Road'' = ''road''"
      by code_simp+
    then show ?thesis by (simp add: comparable_def)
  qed
  have "\<exists>out. clean_data example_pandas [(''Latitude'', [Num 91, Missing NaN]), (''Road'', [Str ''x'', Str ''y''])] = Inr out"
    using clean_data_returns [OF d k] by simp
  moreover have "clean_data example_pandas [(''Latitude'', [Num 91, Missing NaN]), (''Road'', [Str ''x'', Str ''y''])]
     = Inr [(''latitude'', [Missing NaN, Missing NaN]), (''road'', [Str ''x'', Str ''y''])]"
    by code_simp
  ultimately show ?thesis using d by simp
qed

text \<open>
  The separator that line 89 puts between the type and \<open>missing:\<close> is the eight bytes
  that stand in the source file, which are not the UTF-8 bytes of an em dash (U+2014).
\<close>

theorem dictionary_separator_bytes:
  "dash = [CHR 0xC3, CHR 0xA2, CHR 0xE2, CHR 0x82, CHR 0xAC, CHR 0xE2, CHR 0x80, CHR 0x9D] \<and>
   length dash = 8 \<and> dash \<noteq> em_dash \<and>
   entry ''city'' ''object'' 1 =
     ''- **city** (object) ''
       @ [CHR 0xC3, CHR 0xA2, CHR 0xE2, CHR 0x82, CHR 0xAC, CHR 0xE2, CHR 0x80, CHR 0x9D]
       @ '' missing: 1'' @ [CHR 0x0A]"
  by code_simp

text \<open>
  In a table of one column, the library instance of the examples keeps apart the rows
  that hold different markers of a missing value, and merges those that hold the same.
\<close>

theorem missing_markers_kept_apart:
  "clean_data example_pandas [(''Note'', [Missing PyNone, Missing NaN, Missing PdNA, Missing NaN])]
     = Inr [(''note'', [Missing PyNone, Missing NaN, Missing PdNA])]"
  by code_simp

end
